theory Spec2Isabelle
  imports Main "HOL-Library.Sublist"
begin

section \<open>JavaScript strings and values\<close>

text \<open>
  The gateway is one Node.js file, \<^verbatim>\<open>server.js\<close>: an Express application whose route
  \<^verbatim>\<open>POST /api/:service\<close> forwards a request to one of several upstream providers. (The
  repository also keeps an earlier copy of the file; the branches that both copies have
  are the same but for the datastore statement and the body of the outer catch block,
  and the earlier copy has neither the SSML builder nor the branches
  \<^verbatim>\<open>azureTTS-Scaleway\<close> and \<^verbatim>\<open>updateUserGroup\<close>.)

  A JavaScript string is modelled as a \<^typ>\<open>string\<close> whose characters are the code units
  U+0000 to U+00FF, which covers every literal of the source (the c with cedilla of its
  language names is the single unit \<open>0xE7\<close>). On these units \<^verbatim>\<open>trim\<close> and
  \<^verbatim>\<open>toLowerCase\<close> are as ECMAScript defines them.
\<close>

definition jsWhitespace :: "char \<Rightarrow> bool" where
  "jsWhitespace c =
     (c = CHR 0x09 \<or> c = CHR 0x0A \<or> c = CHR 0x0B \<or> c = CHR 0x0C \<or> c = CHR 0x0D
      \<or> c = CHR 0x20 \<or> c = CHR 0xA0)"

definition trim :: "string \<Rightarrow> string" where
  "trim s = rev (dropWhile jsWhitespace (rev (dropWhile jsWhitespace s)))"

definition lowerChar :: "char \<Rightarrow> char" where
  "lowerChar c =
     (let n = (of_char c :: nat)
      in if (65 \<le> n \<and> n \<le> 90) \<or> (192 \<le> n \<and> n \<le> 222 \<and> n \<noteq> 215)
         then char_of (n + 32) else c)"

definition toLowerCase :: "string \<Rightarrow> string" where
  "toLowerCase s = map lowerChar s"

text \<open>
  \<^verbatim>\<open>toUpperCase\<close> is only used to label the roles of a Vertex prompt. The capitals of
  \<open>0xB5\<close> and \<open>0xFF\<close> lie above U+00FF and are left as they are here; the sharp s becomes
  \<^verbatim>\<open>SS\<close>.
\<close>

definition upperChar :: "char \<Rightarrow> string" where
  "upperChar c =
     (let n = (of_char c :: nat)
      in if (97 \<le> n \<and> n \<le> 122) \<or> (224 \<le> n \<and> n \<le> 254 \<and> n \<noteq> 247)
         then [char_of (n - 32)]
         else if n = 223 then ''SS'' else [c])"

definition toUpperCase :: "string \<Rightarrow> string" where
  "toUpperCase s = concat (map upperChar s)"

definition substring :: "string \<Rightarrow> nat \<Rightarrow> nat \<Rightarrow> string" where
  "substring s a b = take (b - a) (drop a s)"

fun joinWith :: "string \<Rightarrow> string list \<Rightarrow> string" where
  "joinWith sep [] = []"
| "joinWith sep [x] = x"
| "joinWith sep (x # y # ys) = x @ sep @ joinWith sep (y # ys)"

fun showNat :: "nat \<Rightarrow> string" where
  "showNat n =
     (if n < 10 then [char_of (48 + n)]
      else showNat (n div 10) @ [char_of (48 + n mod 10)])"

declare showNat.simps [simp del]

definition showInt :: "int \<Rightarrow> string" where
  "showInt i = (if i < 0 then ''-'' @ showNat (nat (- i)) else showNat (nat i))"

definition showDec :: "int \<Rightarrow> nat \<Rightarrow> string" where
  "showDec m e =
     (let a = nat \<bar>m\<bar>; frac = showNat (a mod 10 ^ e)
      in (if m < 0 then ''-'' else []) @ showNat (a div 10 ^ e) @ ''.''
         @ replicate (e - length frac) (CHR ''0'') @ frac)"

text \<open>
  A value that travels through the handlers: what \<^verbatim>\<open>JSON.parse\<close> produces, plus
  \<^verbatim>\<open>undefined\<close> and the function values that a property read can reach through
  \<^verbatim>\<open>Object.prototype\<close>, and the \<^verbatim>\<open>Buffer\<close> of bytes that a binary response
  carries. A number is an integer, or the decimal \<open>m / 10 ^ e\<close> that a literal such as
  \<^verbatim>\<open>0.6\<close> denotes (\<open>JDec 6 1\<close>, the mantissa not a multiple of ten). An object is its
  list of own properties in insertion order.
\<close>

datatype json =
    JUndefined
  | JNull
  | JBool bool
  | JNum int
  | JDec int nat
  | JStr string
  | JArr "json list"
  | JObj "(string \<times> json) list"
  | JFun string
  | JBuf string

fun truthy :: "json \<Rightarrow> bool" where
  "truthy JUndefined = False"
| "truthy JNull = False"
| "truthy (JBool b) = b"
| "truthy (JNum n) = (n \<noteq> 0)"
| "truthy (JDec m e) = (m \<noteq> 0)"
| "truthy (JStr s) = (s \<noteq> [])"
| "truthy (JArr xs) = True"
| "truthy (JObj kvs) = True"
| "truthy (JFun f) = True"
| "truthy (JBuf b) = True"

text \<open>\<^verbatim>\<open>a || b\<close> on values.\<close>

definition orElse :: "json \<Rightarrow> json \<Rightarrow> json" where
  "orElse a b = (if truthy a then a else b)"

text \<open>A field that is a string when present: \<open>None\<close> is \<^verbatim>\<open>undefined\<close>.\<close>

definition truthyS :: "string option \<Rightarrow> bool" where
  "truthyS v = (case v of None \<Rightarrow> False | Some s \<Rightarrow> s \<noteq> [])"

definition optJson :: "string option \<Rightarrow> json" where
  "optJson v = (case v of None \<Rightarrow> JUndefined | Some s \<Rightarrow> JStr s)"

text \<open>A template literal renders \<^verbatim>\<open>undefined\<close> as the word.\<close>

definition tmpl :: "string option \<Rightarrow> string" where
  "tmpl v = (case v of None \<Rightarrow> ''undefined'' | Some s \<Rightarrow> s)"

subsection \<open>\<^verbatim>\<open>JSON.stringify\<close>\<close>

definition hexDigit :: "nat \<Rightarrow> char" where
  "hexDigit n = (if n < 10 then char_of (48 + n) else char_of (87 + n))"

definition quoteChar :: "char \<Rightarrow> string" where
  "quoteChar c =
     (if c = CHR 0x22 then [CHR 0x5C, CHR 0x22]
      else if c = CHR 0x5C then [CHR 0x5C, CHR 0x5C]
      else if c = CHR 0x08 then [CHR 0x5C, CHR ''b'']
      else if c = CHR 0x0C then [CHR 0x5C, CHR ''f'']
      else if c = CHR 0x0A then [CHR 0x5C, CHR ''n'']
      else if c = CHR 0x0D then [CHR 0x5C, CHR ''r'']
      else if c = CHR 0x09 then [CHR 0x5C, CHR ''t'']
      else if (of_char c :: nat) < 32
        then [CHR 0x5C, CHR ''u'', CHR ''0'', CHR ''0'',
              hexDigit ((of_char c :: nat) div 16), hexDigit ((of_char c :: nat) mod 16)]
      else [c])"

definition quote :: "string \<Rightarrow> string" where
  "quote s = [CHR 0x22] @ concat (map quoteChar s) @ [CHR 0x22]"

text \<open>
  \<open>None\<close> is the result \<^verbatim>\<open>undefined\<close>: a property holding it is left out of an object
  and an array element holding it is written \<^verbatim>\<open>null\<close>.
\<close>

definition objMember :: "string \<times> string option \<Rightarrow> string list" where
  "objMember kv = (case snd kv of None \<Rightarrow> [] | Some s \<Rightarrow> [quote (fst kv) @ '':'' @ s])"

definition element :: "string option \<Rightarrow> string" where
  "element v = (case v of None \<Rightarrow> ''null'' | Some s \<Rightarrow> s)"

primrec stringify :: "json \<Rightarrow> string option" where
  "stringify JUndefined = None"
| "stringify JNull = Some ''null''"
| "stringify (JBool b) = Some (if b then ''true'' else ''false'')"
| "stringify (JNum n) = Some (showInt n)"
| "stringify (JDec m e) = Some (showDec m e)"
| "stringify (JStr s) = Some (quote s)"
| "stringify (JArr xs) =
     Some (''['' @ joinWith '','' (map element (map stringify xs)) @ '']'')"
| "stringify (JObj kvs) =
     Some (''{'' @ joinWith '','' (concat (map objMember (map (map_prod id stringify) kvs))) @ ''}'')"
| "stringify (JFun f) = None"
| "stringify (JBuf b) =
     Some (''{'' @ quote ''type'' @ '':'' @ quote ''Buffer'' @ '','' @ quote ''data'' @ '':[''
           @ joinWith '','' (map (\<lambda>c. showNat (of_char c)) b) @ '']}'')"

text \<open>
  A property read on an object literal: the own properties first, then what every object
  inherits from \<^verbatim>\<open>Object.prototype\<close>. \<^verbatim>\<open>__proto__\<close> reads the prototype
  object itself, which has no enumerable property of its own.
\<close>

definition objectPrototype :: "(string \<times> json) list" where
  "objectPrototype =
     [(''constructor'', JFun ''Object''),
      (''__proto__'', JObj []),
      (''hasOwnProperty'', JFun ''hasOwnProperty''),
      (''isPrototypeOf'', JFun ''isPrototypeOf''),
      (''propertyIsEnumerable'', JFun ''propertyIsEnumerable''),
      (''toLocaleString'', JFun ''toLocaleString''),
      (''toString'', JFun ''toString''),
      (''valueOf'', JFun ''valueOf''),
      (''__defineGetter__'', JFun ''__defineGetter__''),
      (''__defineSetter__'', JFun ''__defineSetter__''),
      (''__lookupGetter__'', JFun ''__lookupGetter__''),
      (''__lookupSetter__'', JFun ''__lookupSetter__'')]"

definition getProp :: "(string \<times> json) list \<Rightarrow> string \<Rightarrow> json" where
  "getProp obj k =
     (case map_of obj k of
        Some v \<Rightarrow> v
      | None \<Rightarrow> (case map_of objectPrototype k of Some v \<Rightarrow> v | None \<Rightarrow> JUndefined))"

section \<open>The SSML builder\<close>

definition replaceAll :: "char \<Rightarrow> string \<Rightarrow> string \<Rightarrow> string" where
  "replaceAll c r s = concat (map (\<lambda>x. if x = c then r else [x]) s)"

definition escapeXml :: "string \<Rightarrow> string" where
  "escapeXml unsafe =
     replaceAll (CHR 0x27) ''&apos;''
       (replaceAll (CHR 0x22) ''&quot;''
         (replaceAll (CHR ''>'') ''&gt;''
           (replaceAll (CHR ''<'') ''&lt;''
             (replaceAll (CHR ''&'') ''&amp;'' unsafe))))"

text \<open>
  The escaping as the specification words it: each reserved character becomes its named
  entity, every other character stays.
\<close>

definition entityOf :: "char \<Rightarrow> string" where
  "entityOf c =
     (if c = CHR ''&'' then ''&amp;''
      else if c = CHR ''<'' then ''&lt;''
      else if c = CHR ''>'' then ''&gt;''
      else if c = CHR 0x22 then ''&quot;''
      else if c = CHR 0x27 then ''&apos;''
      else [c])"

record ssml_params =
  ssml_text :: string
  ssml_voice :: string
  ssml_style :: "string option"
  ssml_styleDegree :: "string option"
  ssml_rate :: "string option"
  ssml_pitch :: "string option"
  ssml_volume :: "string option"
  ssml_leadingSilenceMs :: "nat option"
  ssml_trailingSilenceMs :: "nat option"

definition filterBoolean :: "string option list \<Rightarrow> string list" where
  "filterBoolean xs = concat (map (\<lambda>x. case x of None \<Rightarrow> [] | Some s \<Rightarrow> if s \<noteq> [] then [s] else []) xs)"

definition defaultMs :: "nat option \<Rightarrow> nat" where
  "defaultMs v = (case v of None \<Rightarrow> 0 | Some n \<Rightarrow> n)"

definition nl :: string where
  "nl = [CHR 0x0A]"

definition prosodyAttrs :: "ssml_params \<Rightarrow> string" where
  \<open>prosodyAttrs p =
     joinWith '' ''
       (filterBoolean
         [if truthyS (ssml_rate p) then Some (''rate="'' @ tmpl (ssml_rate p) @ ''"'') else None,
          if truthyS (ssml_pitch p) then Some (''pitch="'' @ tmpl (ssml_pitch p) @ ''"'') else None,
          if truthyS (ssml_volume p) then Some (''volume="'' @ tmpl (ssml_volume p) @ ''"'') else None])\<close>

definition openProsody :: "ssml_params \<Rightarrow> string" where
  \<open>openProsody p = (if prosodyAttrs p \<noteq> [] then ''<prosody '' @ prosodyAttrs p @ ''>'' else [])\<close>

definition closeProsody :: "ssml_params \<Rightarrow> string" where
  \<open>closeProsody p = (if prosodyAttrs p \<noteq> [] then ''</prosody>'' else [])\<close>

definition expressOpen :: "ssml_params \<Rightarrow> string" where
  \<open>expressOpen p =
     (if truthyS (ssml_style p)
      then ''<mstts:express-as style="'' @ tmpl (ssml_style p) @ ''"''
           @ (if truthyS (ssml_styleDegree p)
              then '' styledegree="'' @ tmpl (ssml_styleDegree p) @ ''"'' else [])
           @ ''>''
      else [])\<close>

definition expressClose :: "ssml_params \<Rightarrow> string" where
  \<open>expressClose p = (if truthyS (ssml_style p) then ''</mstts:express-as>'' else [])\<close>

definition buildSSML :: "ssml_params \<Rightarrow> string" where
  \<open>buildSSML p =
     trim
      (nl @ ''<speak version="1.0" xmlns:mstts="https://www.w3.org/2001/mstts" xml:lang="''
          @ substring (ssml_voice p) 0 5 @ ''">'' @ nl
       @ ''  <voice name="'' @ ssml_voice p @ ''">'' @ nl
       @ ''    <mstts:silence type="Leading" value="''
          @ showNat (defaultMs (ssml_leadingSilenceMs p)) @ ''ms"/>'' @ nl
       @ ''    <mstts:silence type="Tailing" value="''
          @ showNat (defaultMs (ssml_trailingSilenceMs p)) @ ''ms"/>'' @ nl
       @ ''    '' @ expressOpen p @ nl
       @ ''      '' @ openProsody p @ nl
       @ ''        '' @ escapeXml (ssml_text p) @ nl
       @ ''      '' @ closeProsody p @ nl
       @ ''    '' @ expressClose p @ nl
       @ ''  </voice>'' @ nl
       @ ''</speak>'')\<close>

section \<open>Errors, effects and the order of a handler's actions\<close>

text \<open>
  An error object as the handlers read it: \<^verbatim>\<open>err.message\<close> and, for an error raised by
  an HTTP client, \<^verbatim>\<open>err.response\<close> with its status (0 when there is none), headers and
  data. The errors of the runtime itself carry a message only; \<open>HeadersSent\<close> is the error
  \<^verbatim>\<open>ERR_HTTP_HEADERS_SENT\<close> that setting a header throws once the headers are sent.
\<close>

record err_response =
  resp_status :: nat
  resp_headers :: "(string \<times> json) list"
  resp_data :: json

datatype jserror =
    TypeError string
  | ReferenceError string
  | HeadersSent
  | Failure string "err_response option"

fun errMessage :: "jserror \<Rightarrow> string" where
  "errMessage (TypeError m) = m"
| "errMessage (ReferenceError m) = m"
| "errMessage HeadersSent = ''Cannot set headers after they are sent to the client''"
| "errMessage (Failure m r) = m"

fun errResponse :: "jserror \<Rightarrow> err_response option" where
  "errResponse (TypeError m) = None"
| "errResponse (ReferenceError m) = None"
| "errResponse HeadersSent = None"
| "errResponse (Failure m r) = r"

text \<open>\<^verbatim>\<open>err.response?.status || 500\<close>\<close>

definition statusOr500 :: "jserror \<Rightarrow> nat" where
  "statusOr500 e =
     (case errResponse e of
        None \<Rightarrow> 500
      | Some r \<Rightarrow> if resp_status r \<noteq> 0 then resp_status r else 500)"

definition responseData :: "jserror \<Rightarrow> json" where
  "responseData e = (case errResponse e of None \<Rightarrow> JUndefined | Some r \<Rightarrow> resp_data r)"

definition responseHeaders :: "jserror \<Rightarrow> (string \<times> json) list" where
  "responseHeaders e = (case errResponse e of None \<Rightarrow> [] | Some r \<Rightarrow> resp_headers r)"

subsection \<open>Conversion to a string\<close>

text \<open>
  \<^verbatim>\<open>buf.toString()\<close> decodes the bytes of a \<^verbatim>\<open>Buffer\<close> as UTF-8: a byte below
  \<open>0x80\<close> is its own code unit, and \<open>0xC2\<close> or \<open>0xC3\<close> with a continuation byte is one
  code unit from U+0080 to U+00FF. Bytes that decode to a code point above U+00FF, or
  that are no UTF-8 at all, have no string in this model and are kept as they are.
\<close>

fun utf8Decode :: "string \<Rightarrow> string" where
  "utf8Decode (a # b # cs) =
     (if ((of_char a :: nat) = 194 \<or> (of_char a :: nat) = 195)
         \<and> 128 \<le> (of_char b :: nat) \<and> (of_char b :: nat) < 192
      then char_of (((of_char a :: nat) - 192) * 64 + ((of_char b :: nat) - 128)) # utf8Decode cs
      else a # utf8Decode (b # cs))"
| "utf8Decode cs = cs"

text \<open>The first error of a list of results, or all the values.\<close>

fun firstError :: "(jserror + 'a) list \<Rightarrow> jserror + 'a list" where
  "firstError [] = Inr []"
| "firstError (Inl e # rs) = Inl e"
| "firstError (Inr v # rs) = (case firstError rs of Inl e \<Rightarrow> Inl e | Inr vs \<Rightarrow> Inr (v # vs))"

text \<open>
  \<^verbatim>\<open>String(v)\<close>, as a template literal applies it. An object is converted by its
  \<^verbatim>\<open>toString\<close> method: the inherited one gives \<^verbatim>\<open>[object Object]\<close>, and an object
  whose own property \<^verbatim>\<open>toString\<close> is not a function has no primitive value, since the
  inherited \<^verbatim>\<open>valueOf\<close> returns the object and an own \<^verbatim>\<open>valueOf\<close> is no function
  either: the conversion throws. (A function is never an own property of a value that
  \<^verbatim>\<open>JSON.parse\<close> produced; where the type allows one as \<^verbatim>\<open>toString\<close>, it is read as
  the inherited method.) An array joins the conversions of its elements, the empty
  string for \<^verbatim>\<open>null\<close> and \<^verbatim>\<open>undefined\<close>.
\<close>

fun toStr :: "json \<Rightarrow> jserror + string" where
  "toStr JUndefined = Inr ''undefined''"
| "toStr JNull = Inr ''null''"
| "toStr (JBool b) = Inr (if b then ''true'' else ''false'')"
| "toStr (JNum n) = Inr (showInt n)"
| "toStr (JDec m e) = Inr (showDec m e)"
| "toStr (JStr s) = Inr s"
| "toStr (JArr xs) =
     (case firstError
             (map (\<lambda>x. case x of JUndefined \<Rightarrow> Inr [] | JNull \<Rightarrow> Inr [] | _ \<Rightarrow> toStr x) xs) of
        Inl e \<Rightarrow> Inl e
      | Inr ss \<Rightarrow> Inr (joinWith '','' ss))"
| "toStr (JObj kvs) =
     (case getProp kvs ''toString'' of
        JFun f \<Rightarrow> Inr ''[object Object]''
      | _ \<Rightarrow> Inl (TypeError ''Cannot convert object to primitive value''))"
| "toStr (JFun f) = Inr (''function '' @ f @ ''() { [native code] }'')"
| "toStr (JBuf b) = Inr (utf8Decode b)"

text \<open>
  What happens during a request, in order: the calls the handler makes to an upstream
  client or to the datastore, the arrival of an event of an upstream stream in a
  \<^verbatim>\<open>for await\<close> loop (\<open>Arrived\<close>, with the delta that the loop reads from the event),
  the one-second pause of the poll, and the handler's calls on the response \<^verbatim>\<open>res\<close>.
  \<^verbatim>\<open>res.end()\<close> is \<open>End\<close>; \<^verbatim>\<open>res.json\<close> and \<^verbatim>\<open>res.send\<close> send a whole body. Console
  output is left out.
\<close>

datatype upstream_call =
    AxiosInstancePost string json json
  | AxiosPost string json json
  | GenerateContent json
  | GenerateContentStream json
  | ChatCompletionsCreate json
  | ThreadsCreate json
  | RunsCreate json json
  | RunsRetrieve json json
  | MessagesList json json
  | MessagesCreate json json
  | RunsCreateAndStream json json
  | SpeechCreate json
  | PoolQuery string "json list"

datatype effect =
    Upstream upstream_call
  | Arrived json
  | Sleep nat
  | SetHeader string string
  | FlushHeaders
  | Write string
  | End
  | Status nat
  | Header string string
  | Json json
  | Send json

datatype 'a outcome = Returned 'a | Thrown jserror

type_synonym 'a comp = "effect list \<times> 'a outcome"

definition ret :: "'a \<Rightarrow> 'a comp" where
  "ret x = ([], Returned x)"

definition emits :: "effect list \<Rightarrow> unit comp" where
  "emits es = (es, Returned ())"

definition andThen :: "'a comp \<Rightarrow> ('a \<Rightarrow> 'b comp) \<Rightarrow> 'b comp" where
  "andThen m f =
     (case m of
        (es, Returned x) \<Rightarrow> (case f x of (es', r) \<Rightarrow> (es @ es', r))
      | (es, Thrown e) \<Rightarrow> (es, Thrown e))"

text \<open>
  \<^verbatim>\<open>try { m } catch (err) { h }\<close>: the catch block sees what the try block has done to the
  response so far.
\<close>

definition tryCatch :: "'a comp \<Rightarrow> (effect list \<Rightarrow> jserror \<Rightarrow> 'a comp) \<Rightarrow> 'a comp" where
  "tryCatch m h =
     (case m of
        (es, Returned x) \<Rightarrow> (es, Returned x)
      | (es, Thrown e) \<Rightarrow> (case h es e of (es', r) \<Rightarrow> (es @ es', r)))"

text \<open>An awaited upstream call: the call is made, then it resolves or rejects.\<close>

definition await :: "upstream_call \<Rightarrow> jserror + 'a \<Rightarrow> 'a comp" where
  "await c r = ([Upstream c], case r of Inl e \<Rightarrow> Thrown e | Inr v \<Rightarrow> Returned v)"

definition lift :: "jserror + 'a \<Rightarrow> 'a comp" where
  "lift r = ([], case r of Inl e \<Rightarrow> Thrown e | Inr v \<Rightarrow> Returned v)"

text \<open>
  \<^verbatim>\<open>res.headersSent\<close>: true once the headers have been flushed or a body has been
  written.
\<close>

fun sendsHeaders :: "effect \<Rightarrow> bool" where
  "sendsHeaders FlushHeaders = True"
| "sendsHeaders (Write s) = True"
| "sendsHeaders End = True"
| "sendsHeaders (Json v) = True"
| "sendsHeaders (Send v) = True"
| "sendsHeaders ef = False"

definition headersSent :: "effect list \<Rightarrow> bool" where
  "headersSent es = list_ex sendsHeaders es"

text \<open>
  An upstream stream as \<^verbatim>\<open>for await\<close> consumes it: the events it yields, then its normal
  end (\<open>None\<close>) or the error its iterator throws. Each event is given as the value the loop
  reads from it (its \<^verbatim>\<open>delta\<close>). The loop waits for an event, runs its body on it, and
  only then waits for the next one.
\<close>

type_synonym feed = "json list \<times> jserror option"

fun forAwait :: "(json \<Rightarrow> effect list) \<Rightarrow> json list \<Rightarrow> jserror option \<Rightarrow> unit comp" where
  "forAwait f [] None = ([], Returned ())"
| "forAwait f [] (Some e) = ([], Thrown e)"
| "forAwait f (x # xs) fin =
     (case forAwait f xs fin of (es, r) \<Rightarrow> (Arrived x # f x @ es, r))"

text \<open>\<^verbatim>\<open>`data: ${JSON.stringify(v)}\n\n`\<close> and the sentinel frame.\<close>

definition sse :: "json \<Rightarrow> string" where
  "sse v = ''data: '' @ (case stringify v of None \<Rightarrow> ''undefined'' | Some s \<Rightarrow> s) @ nl @ nl"

definition doneFrame :: string where
  "doneFrame = ''data: [DONE]'' @ nl @ nl"

text \<open>The body of the relay loops: \<^verbatim>\<open>if (delta) res.write(...)\<close>.\<close>

definition writeDelta :: "(json \<Rightarrow> json) \<Rightarrow> json \<Rightarrow> effect list" where
  "writeDelta envelope delta = (if truthy delta then [Write (sse (envelope delta))] else [])"

definition deltaEnvelope :: "json \<Rightarrow> json" where
  "deltaEnvelope delta = JObj [(''delta'', delta)]"

definition choicesEnvelope :: "json \<Rightarrow> json" where
  "choicesEnvelope delta =
     JObj [(''choices'', JArr [JObj [(''delta'', JObj [(''content'', delta)])]])]"

section \<open>The environment and the upstream services\<close>

type_synonym env = "string \<Rightarrow> string option"

type_synonym body = "(string \<times> json) list"

text \<open>
  How the upstream services answer one request: one field for each kind of call, since a
  request makes each kind at most once, but for the retrievals of the poll and the
  appends to a thread, which are answered call by call. A call that rejects gives
  \<open>Inl\<close>. A byte stream is its chunks and whether it reached its end. A thread or a run
  is given by its \<^verbatim>\<open>id\<close>, a retrieval by its \<^verbatim>\<open>status\<close>, and a result that the handler
  reads through a chain of \<^verbatim>\<open>?.\<close> by the value at the end of the chain (the text of the
  first candidate, the value of the latest message, \<^verbatim>\<open>usage?.total_tokens\<close>, the first
  row and the row count).
\<close>

record upstream =
  up_postStream :: "jserror + string list \<times> bool"
  up_postJson :: "jserror + json"
  up_postBuffer :: "jserror + json"
  up_generateContent :: "jserror + json"
  up_generateContentStream :: "jserror + feed"
  up_chatCompletions :: "jserror + feed \<times> json"
  up_threadsCreate :: "jserror + json"
  up_runsCreate :: "jserror + json"
  up_runsRetrieve :: "nat \<Rightarrow> jserror + json"
  up_messagesList :: "jserror + json"
  up_messagesCreate :: "nat \<Rightarrow> jserror + unit"
  up_createAndStream :: "jserror + feed"
  up_speechCreate :: "jserror + string list \<times> bool"
  up_poolQuery :: "jserror + json \<times> json"

section \<open>The service handlers\<close>

text \<open>
  Each branch of the router \<^verbatim>\<open>app.post("/api/:service")\<close> is one definition, named after
  the service it serves.
\<close>

definition sq :: string where
  "sq = [CHR 0x27]"

definition cannotRead :: "string \<Rightarrow> string \<Rightarrow> string" where
  "cannotRead what prop =
     ''Cannot read properties of '' @ what @ '' (reading '' @ sq @ prop @ sq @ '')''"

definition API_TIMEOUT :: int where
  "API_TIMEOUT = 320000"

definition eventStreamHeaders :: "effect list" where
  "eventStreamHeaders =
     [SetHeader ''Content-Type'' ''text/event-stream'', SetHeader ''Cache-Control'' ''no-cache'']"

subsection \<open>\<^verbatim>\<open>azureOpenaiSimulateur\<close>: raw passthrough of an upstream chunked stream\<close>

definition azureChatUrl :: "string option \<Rightarrow> string option \<Rightarrow> string option \<Rightarrow> string" where
  "azureChatUrl endpoint deployment apiVersion =
     tmpl endpoint @ ''/openai/deployments/'' @ tmpl deployment
       @ ''/chat/completions?api-version='' @ tmpl apiVersion"

definition handler_azureOpenaiSimulateur :: "env \<Rightarrow> upstream \<Rightarrow> body \<Rightarrow> unit comp" where
  "handler_azureOpenaiSimulateur env up reqBody =
     andThen
       (await
          (AxiosInstancePost
             (azureChatUrl (env ''AZURE_OPENAI_ENDPOINT_SIMULATEUR'')
                (env ''AZURE_OPENAI_DEPLOYMENT_SIMULATEUR'') (env ''AZURE_OPENAI_API_VERSION''))
             (JObj reqBody)
             (JObj [(''headers'', JObj [(''api-key'', optJson (env ''AZURE_OPENAI_KEY_SIMULATEUR'')),
                                        (''Content-Type'', JStr ''application/json'')]),
                    (''responseType'', JStr ''stream'')]))
          (up_postStream up))
       (\<lambda>(chunks, ended).
          emits (eventStreamHeaders @ map Write chunks @ (if ended then [End] else [])))"

subsection \<open>\<^verbatim>\<open>vertexChat\<close>: batch or SSE\<close>

fun promptLine :: "json \<Rightarrow> jserror + string" where
  "promptLine (JObj m) =
     (case getProp m ''role'' of
        JStr role \<Rightarrow>
          (case toStr (getProp m ''content'') of
             Inl e \<Rightarrow> Inl e
           | Inr content \<Rightarrow> Inr (toUpperCase role @ '': '' @ content))
      | JUndefined \<Rightarrow> Inl (TypeError (cannotRead ''undefined'' ''toUpperCase''))
      | JNull \<Rightarrow> Inl (TypeError (cannotRead ''null'' ''toUpperCase''))
      | _ \<Rightarrow> Inl (TypeError ''m.role.toUpperCase is not a function''))"
| "promptLine JUndefined = Inl (TypeError (cannotRead ''undefined'' ''role''))"
| "promptLine JNull = Inl (TypeError (cannotRead ''null'' ''role''))"
| "promptLine m = Inl (TypeError (cannotRead ''undefined'' ''toUpperCase''))"

fun mapThrowing :: "('a \<Rightarrow> jserror + 'b) \<Rightarrow> 'a list \<Rightarrow> jserror + 'b list" where
  "mapThrowing f [] = Inr []"
| "mapThrowing f (x # xs) =
     (case f x of
        Inl e \<Rightarrow> Inl e
      | Inr y \<Rightarrow> (case mapThrowing f xs of Inl e \<Rightarrow> Inl e | Inr ys \<Rightarrow> Inr (y # ys)))"

definition promptText :: "json \<Rightarrow> jserror + string" where
  "promptText messages =
     (case messages of
        JArr ms \<Rightarrow>
          (case mapThrowing promptLine ms of Inl e \<Rightarrow> Inl e | Inr ls \<Rightarrow> Inr (joinWith nl ls))
      | JUndefined \<Rightarrow> Inl (TypeError (cannotRead ''undefined'' ''map''))
      | JNull \<Rightarrow> Inl (TypeError (cannotRead ''null'' ''map''))
      | _ \<Rightarrow> Inl (TypeError ''messages.map is not a function''))"

definition vertexRequest :: "string \<Rightarrow> (string \<times> json) list" where
  "vertexRequest prompt =
     [(''contents'', JArr [JObj [(''role'', JStr ''user''),
                                 (''parts'', JArr [JObj [(''text'', JStr prompt)]])]])]"

definition vertexBatch :: "upstream \<Rightarrow> string \<Rightarrow> unit comp" where
  "vertexBatch up prompt =
     tryCatch
       (andThen
          (await (GenerateContent
                    (JObj (vertexRequest prompt
                           @ [(''generationConfig'', JObj [(''maxOutputTokens'', JNum 2048)])])))
                 (up_generateContent up))
          (\<lambda>text. emits [Json (JObj [(''text'', orElse text (JStr []))])]))
       (\<lambda>sofar err. emits [Status 500, Json (JObj [(''error'', JStr (errMessage err))])])"

definition vertexStreaming :: "upstream \<Rightarrow> string \<Rightarrow> unit comp" where
  "vertexStreaming up prompt =
     tryCatch
       (andThen (emits (eventStreamHeaders @ [FlushHeaders])) (\<lambda>_.
        andThen (await (GenerateContentStream (JObj (vertexRequest prompt)))
                       (up_generateContentStream up)) (\<lambda>(items, fin).
        andThen (forAwait (writeDelta deltaEnvelope) items fin) (\<lambda>_.
        emits [Write doneFrame, End]))))
       (\<lambda>sofar err.
          if \<not> headersSent sofar
          then emits [Status 500, Json (JObj [(''error'', JStr (errMessage err))])]
          else emits [Write (sse (JObj [(''error'', JStr (errMessage err))])),
                      Write doneFrame, End])"

definition handler_vertexChat :: "upstream \<Rightarrow> body \<Rightarrow> unit comp" where
  "handler_vertexChat up reqBody =
     andThen (lift (promptText (getProp reqBody ''messages''))) (\<lambda>prompt.
       if getProp reqBody ''stream'' = JBool False
       then vertexBatch up prompt
       else vertexStreaming up prompt)"

subsection \<open>\<^verbatim>\<open>openaiSimulateur\<close>: SSE relay of a chat completion stream\<close>

definition chatRequest :: "body \<Rightarrow> json" where
  "chatRequest reqBody =
     JObj [(''model'', getProp reqBody ''model''),
           (''messages'', getProp reqBody ''messages''),
           (''stream'', JBool True)]"

definition handler_openaiSimulateur :: "upstream \<Rightarrow> body \<Rightarrow> unit comp" where
  "handler_openaiSimulateur up reqBody =
     andThen (emits (eventStreamHeaders @ [FlushHeaders])) (\<lambda>_.
     andThen (await (ChatCompletionsCreate (chatRequest reqBody)) (up_chatCompletions up))
       (\<lambda>((parts, fin), totalTokens).
     andThen (forAwait (writeDelta choicesEnvelope) parts fin) (\<lambda>_.
     emits [Write (sse (JObj [(''usage'',
                               JObj [(''total_tokens'', orElse totalTokens (JNum 0))])])),
            Write doneFrame, End])))"

subsection \<open>\<^verbatim>\<open>assistantOpenaiAnalyse\<close>: create a run, poll it, answer in one piece\<close>

text \<open>
  The \<^verbatim>\<open>do ... while\<close> loop: sleep one second, retrieve the run, and go on while its
  status is neither \<^verbatim>\<open>completed\<close> nor \<^verbatim>\<open>failed\<close>. \<open>i\<close> counts the retrievals made
  so far and \<open>sofar\<close> is what the handler has done so far. The loop has no bound of its own:
  \<open>None\<close> is the run that never reaches one of the two statuses.
\<close>

partial_function (option) pollRun ::
  "(nat \<Rightarrow> jserror + json) \<Rightarrow> json \<Rightarrow> json \<Rightarrow> nat \<Rightarrow> effect list \<Rightarrow> json comp option" where
  "pollRun retrieve threadId runId i sofar =
     (case retrieve i of
        Inl e \<Rightarrow> Some (sofar @ [Sleep 1000, Upstream (RunsRetrieve threadId runId)], Thrown e)
      | Inr status \<Rightarrow>
          if status \<noteq> JStr ''completed'' \<and> status \<noteq> JStr ''failed''
          then pollRun retrieve threadId runId (Suc i)
                 (sofar @ [Sleep 1000, Upstream (RunsRetrieve threadId runId)])
          else Some (sofar @ [Sleep 1000, Upstream (RunsRetrieve threadId runId)],
                     Returned status))"

declare pollRun.simps [code]

definition createThreadAndRun :: "env \<Rightarrow> upstream \<Rightarrow> body \<Rightarrow> (json \<times> json) comp" where
  "createThreadAndRun env up reqBody =
     andThen (await (ThreadsCreate (JObj [(''messages'', getProp reqBody ''messages'')]))
                    (up_threadsCreate up)) (\<lambda>threadId.
     andThen (await (RunsCreate threadId
                       (JObj [(''assistant_id'', optJson (env ''OPENAI_ASSISTANTID''))]))
                    (up_runsCreate up)) (\<lambda>runId.
     ret (threadId, runId)))"

definition answerRun :: "upstream \<Rightarrow> json \<Rightarrow> json \<Rightarrow> unit comp" where
  "answerRun up threadId status =
     (if status \<noteq> JStr ''completed''
      then emits [Status 500,
                  Json (JObj [(''error'', JStr ''Assistant run failed''), (''details'', status)])]
      else andThen (await (MessagesList threadId
                             (JObj [(''limit'', JNum 1), (''order'', JStr ''desc'')]))
                          (up_messagesList up)) (\<lambda>answer.
           emits [Json (JObj [(''answer'', orElse answer (JStr []))])]))"

definition handler_assistantOpenaiAnalyse :: "env \<Rightarrow> upstream \<Rightarrow> body \<Rightarrow> unit comp option" where
  "handler_assistantOpenaiAnalyse env up reqBody =
     (case createThreadAndRun env up reqBody of
        (sofar, Thrown e) \<Rightarrow> Some (sofar, Thrown e)
      | (sofar, Returned (threadId, runId)) \<Rightarrow>
          (case pollRun (up_runsRetrieve up) threadId runId 0 sofar of
             None \<Rightarrow> None
           | Some polled \<Rightarrow> Some (andThen polled (answerRun up threadId))))"

subsection \<open>\<^verbatim>\<open>assistantOpenaiAnalyseStreaming\<close>: SSE relay on a new or an existing thread\<close>

text \<open>What \<^verbatim>\<open>for (const msg of v)\<close> walks through.\<close>

definition iterate :: "json \<Rightarrow> jserror + json list" where
  "iterate v =
     (case v of
        JArr xs \<Rightarrow> Inr xs
      | JStr s \<Rightarrow> Inr (map (\<lambda>c. JStr [c]) s)
      | JBuf b \<Rightarrow> Inr (map (\<lambda>c. JNum (of_char c)) b)
      | _ \<Rightarrow> Inl (TypeError ''req.body.messages is not iterable''))"

fun appendMessages :: "(nat \<Rightarrow> jserror + unit) \<Rightarrow> json \<Rightarrow> json list \<Rightarrow> nat \<Rightarrow> unit comp" where
  "appendMessages create threadId [] i = ret ()"
| "appendMessages create threadId (msg # msgs) i =
     andThen (await (MessagesCreate threadId msg) (create i)) (\<lambda>_.
       appendMessages create threadId msgs (Suc i))"

definition openThread :: "upstream \<Rightarrow> body \<Rightarrow> json comp" where
  "openThread up reqBody =
     (if truthy (getProp reqBody ''threadId'')
      then andThen (lift (iterate (getProp reqBody ''messages''))) (\<lambda>msgs.
           andThen (appendMessages (up_messagesCreate up) (getProp reqBody ''threadId'') msgs 0)
             (\<lambda>_. ret (getProp reqBody ''threadId'')))
      else await (ThreadsCreate (JObj [(''messages'', getProp reqBody ''messages'')]))
                 (up_threadsCreate up))"

definition handler_assistantOpenaiAnalyseStreaming :: "env \<Rightarrow> upstream \<Rightarrow> body \<Rightarrow> unit comp" where
  "handler_assistantOpenaiAnalyseStreaming env up reqBody =
     andThen (openThread up reqBody) (\<lambda>threadId.
     andThen (emits (eventStreamHeaders @ [FlushHeaders])) (\<lambda>_.
     andThen (emits (if \<not> truthy (getProp reqBody ''threadId'')
                     then [Write (sse (JObj [(''threadId'', threadId)]))] else [])) (\<lambda>_.
     andThen (await (RunsCreateAndStream threadId
                       (JObj [(''assistant_id'', optJson (env ''OPENAI_ASSISTANTID'')),
                              (''stream'', JBool True)]))
                    (up_createAndStream up)) (\<lambda>(events, fin).
     andThen (forAwait (writeDelta deltaEnvelope) events fin) (\<lambda>_.
     emits [Write doneFrame, End])))))"

subsection \<open>\<^verbatim>\<open>openaiAnalyse\<close>: SSE relay with its own catch block\<close>

definition handler_openaiAnalyse :: "upstream \<Rightarrow> body \<Rightarrow> unit comp" where
  "handler_openaiAnalyse up reqBody =
     andThen (emits (eventStreamHeaders
                     @ [SetHeader ''Connection'' ''keep-alive'',
                        SetHeader ''Access-Control-Allow-Origin'' ''*'',
                        FlushHeaders])) (\<lambda>_.
     tryCatch
       (andThen (await (ChatCompletionsCreate (chatRequest reqBody)) (up_chatCompletions up))
          (\<lambda>((parts, fin), totalTokens).
        andThen (forAwait (writeDelta deltaEnvelope) parts fin) (\<lambda>_.
        emits [Write doneFrame, End])))
       (\<lambda>sofar err.
          emits [Write (sse (JObj [(''error'', JStr ''Errore durante lo streaming AI.'')])),
                 End]))"

subsection \<open>\<^verbatim>\<open>azureOpenaiAnalyse\<close>: batch\<close>

definition handler_azureOpenaiAnalyse :: "env \<Rightarrow> upstream \<Rightarrow> body \<Rightarrow> unit comp" where
  "handler_azureOpenaiAnalyse env up reqBody =
     tryCatch
       (andThen
          (await
             (AxiosInstancePost
                (azureChatUrl (env ''AZURE_OPENAI_ENDPOINT_SIMULATEUR'')
                   (env ''AZURE_OPENAI_DEPLOYMENT_COACH'') (env ''AZURE_OPENAI_API_VERSION_COACH''))
                (JObj reqBody)
                (JObj [(''headers'',
                        JObj [(''api-key'', optJson (env ''AZURE_OPENAI_KEY_SIMULATEUR'')),
                              (''Content-Type'', JStr ''application/json'')])]))
             (up_postJson up))
          (\<lambda>data. emits [Json data]))
       (\<lambda>sofar err.
          emits [Status (statusOr500 err),
                 Json (orElse (responseData err)
                         (JObj [(''error'', JStr ''Errore interno Azure Analyse'')]))])"

subsection \<open>The text-to-speech services\<close>

text \<open>
  \<^verbatim>\<open>v.trim()\<close> on a value: only a string has the method. \<open>expr\<close> is the source text of
  the receiver, which the runtime quotes in its message.
\<close>

definition callTrim :: "string \<Rightarrow> json \<Rightarrow> jserror + string" where
  "callTrim expr v =
     (case v of
        JStr s \<Rightarrow> Inr (trim s)
      | JUndefined \<Rightarrow> Inl (TypeError (cannotRead ''undefined'' ''trim''))
      | JNull \<Rightarrow> Inl (TypeError (cannotRead ''null'' ''trim''))
      | _ \<Rightarrow> Inl (TypeError (expr @ ''.trim is not a function'')))"

text \<open>\<^verbatim>\<open>(v || "").trim().toLowerCase()\<close>\<close>

definition normalised :: "string \<Rightarrow> json \<Rightarrow> jserror + string" where
  \<open>normalised name v =
     (case callTrim (''('' @ name @ '' || "")'') (orElse v (JStr [])) of
        Inl e \<Rightarrow> Inl e
      | Inr t \<Rightarrow> Inr (toLowerCase t))\<close>

definition allowedVoices :: "string list" where
  "allowedVoices = [''alloy'', ''echo'', ''fable'', ''onyx'', ''nova'', ''shimmer'']"

text \<open>
  The voice of \<^verbatim>\<open>openai-tts\<close> and \<^verbatim>\<open>streaming-openai-tts\<close>:
  \<^verbatim>\<open>allowed.includes(norm) ? selectedVoice.trim().toLowerCase() : "fable"\<close>.
\<close>

definition chooseVoice :: "json \<Rightarrow> jserror + string" where
  "chooseVoice selectedVoice =
     (case normalised ''selectedVoice'' selectedVoice of
        Inl e \<Rightarrow> Inl e
      | Inr norm \<Rightarrow>
          if norm \<in> set allowedVoices
          then (case callTrim ''selectedVoice'' selectedVoice of
                  Inl e \<Rightarrow> Inl e
                | Inr t \<Rightarrow> Inr (toLowerCase t))
          else Inr ''fable'')"

definition textRequired :: "unit comp" where
  "textRequired = emits [Status 400, Json (JObj [(''error'', JStr ''Text is required'')])]"

definition sendAudio :: "json \<Rightarrow> unit comp" where
  "sendAudio data = emits [SetHeader ''Content-Type'' ''audio/mpeg'', Send data]"

definition handler_openai_tts :: "env \<Rightarrow> upstream \<Rightarrow> body \<Rightarrow> unit comp" where
  "handler_openai_tts env up reqBody =
     (if \<not> truthyS (env ''OPENAI_API_KEY_SIMULATEUR'')
      then emits [Status 500, Json (JObj [(''error'', JStr ''OpenAI API key missing'')])]
      else if \<not> truthy (getProp reqBody ''text'') then textRequired
      else
        andThen (lift (chooseVoice (getProp reqBody ''selectedVoice''))) (\<lambda>voice.
        tryCatch
          (andThen
             (await
                (AxiosPost ''https://api.openai.com/v1/audio/speech''
                   (JObj [(''model'', JStr ''gpt-4o-mini-tts''),
                          (''input'', getProp reqBody ''text''),
                          (''voice'', JStr voice),
                          (''instructions'', JStr ''Speak in a gentle, slow and friendly way.'')])
                   (JObj [(''headers'',
                           JObj [(''Authorization'',
                                  JStr (''Bearer '' @ tmpl (env ''OPENAI_API_KEY_SIMULATEUR''))),
                                 (''Content-Type'', JStr ''application/json'')]),
                          (''responseType'', JStr ''arraybuffer'')]))
                (up_postBuffer up))
             sendAudio)
          (\<lambda>sofar err.
             emits [Status (statusOr500 err),
                    Json (JObj [(''error'', JStr ''OpenAI TTS failed''),
                                (''details'', JStr (errMessage err))])])))"

definition handler_streaming_openai_tts :: "upstream \<Rightarrow> body \<Rightarrow> unit comp" where
  "handler_streaming_openai_tts up reqBody =
     (if \<not> truthy (getProp reqBody ''text'') then textRequired
      else
        andThen (lift (chooseVoice (getProp reqBody ''selectedVoice''))) (\<lambda>voice.
        tryCatch
          (andThen
             (await
                (SpeechCreate
                   (JObj [(''model'', JStr ''tts-1''),
                          (''input'', getProp reqBody ''text''),
                          (''voice'', JStr voice),
                          (''instructions'', JStr ''Speak in a cheerful and positive tone.''),
                          (''response_format'', JStr ''mp3'')]))
                (up_speechCreate up))
             (\<lambda>(chunks, ended).
                emits ([SetHeader ''Content-Type'' ''audio/mpeg'',
                        SetHeader ''Transfer-Encoding'' ''chunked'']
                       @ map Write chunks @ (if ended then [End] else []))))
          (\<lambda>sofar err.
             emits [Status 500, Json (JObj [(''error'', JStr ''OpenAI TTS failed'')])])))"

definition ttsVoiceMap :: "(string \<times> json) list" where
  "ttsVoiceMap =
     [(''alloy'', JStr ''alloy''), (''echo'', JStr ''echo''), (''fable'', JStr ''fable''),
      (''onyx'', JStr ''onyx''), (''nova'', JStr ''nova''), (''shimmer'', JStr ''shimmer'')]"

text \<open>
  The voice of \<^verbatim>\<open>azureTextToSpeech\<close>:
  \<^verbatim>\<open>voiceMap[(selectedVoice || "").trim().toLowerCase()] || "fable"\<close>.
\<close>

definition mappedVoice :: "json \<Rightarrow> jserror + json" where
  "mappedVoice selectedVoice =
     (case normalised ''selectedVoice'' selectedVoice of
        Inl e \<Rightarrow> Inl e
      | Inr norm \<Rightarrow> Inr (orElse (getProp ttsVoiceMap norm) (JStr ''fable'')))"

definition handler_azureTextToSpeech :: "env \<Rightarrow> upstream \<Rightarrow> body \<Rightarrow> unit comp" where
  "handler_azureTextToSpeech env up reqBody =
     (if \<not> truthy (getProp reqBody ''text'') then textRequired
      else
        andThen (lift (mappedVoice (getProp reqBody ''selectedVoice''))) (\<lambda>voice.
        tryCatch
          (andThen
             (await
                (AxiosPost
                   (tmpl (env ''AZURE_TTS_ENDPOINT'')
                    @ ''/openai/deployments/tts/audio/speech?api-version=2025-03-01-preview'')
                   (JObj [(''model'', JStr ''tts-1''),
                          (''input'', getProp reqBody ''text''),
                          (''voice'', voice)])
                   (JObj [(''headers'',
                           JObj [(''Content-Type'', JStr ''application/json''),
                                 (''api-key'', optJson (env ''AZURE_TTS_KEY'')),
                                 (''Accept'', JStr ''audio/mpeg'')]),
                          (''responseType'', JStr ''arraybuffer'')]))
                (up_postBuffer up))
             sendAudio)
          (\<lambda>sofar err.
             emits [Status (statusOr500 err),
                    Json (JObj [(''error'', JStr ''Azure TTS failed''),
                                (''details'', JStr (errMessage err))])])))"

subsection \<open>\<^verbatim>\<open>azureTTS-Scaleway\<close>: Azure Speech through the SSML builder\<close>

definition azureVoiceMap :: "(string \<times> json) list" where
  "azureVoiceMap =
     [(''fran'' @ [CHR 0xE7] @ ''ais'', JStr ''fr-FR-RemyMultilingualNeural''),
      (''espagnol'', JStr ''es-ES-ElviraNeural''),
      (''anglais'', JStr ''en-US-JennyNeural'')]"

text \<open>
  \<^verbatim>\<open>(selectedVoice && selectedVoice.trim()) || voiceMap[lang] || "fr-FR-RemyMultilingualNeural"\<close>,
  after \<^verbatim>\<open>lang\<close> has been computed.
\<close>

definition azureVoice :: "json \<Rightarrow> json \<Rightarrow> jserror + json" where
  "azureVoice selectedVoice selectedLanguage =
     (case normalised ''selectedLanguage'' selectedLanguage of
        Inl e \<Rightarrow> Inl e
      | Inr lang \<Rightarrow>
          (case (if truthy selectedVoice
                 then map_sum id JStr (callTrim ''selectedVoice'' selectedVoice)
                 else Inr selectedVoice) of
             Inl e \<Rightarrow> Inl e
           | Inr override \<Rightarrow>
               Inr (orElse (orElse override (getProp azureVoiceMap lang))
                      (JStr ''fr-FR-RemyMultilingualNeural''))))"

text \<open>
  The names that are bound where the branch computes \<^verbatim>\<open>safeStyle\<close>: the bindings of the
  branch, of the route handler and of the module, and the globals of Node.js that the
  file uses. Reading a name that is bound nowhere throws a \<^verbatim>\<open>ReferenceError\<close>.
\<close>

definition identifiersInScope :: "string list" where
  "identifiersInScope =
     [''text'', ''selectedLanguage'', ''selectedVoice'', ''apiKey'', ''region'', ''endpoint'',
      ''voiceMap'', ''lang'', ''voice'',
      ''service'', ''req'', ''res'',
      ''express'', ''axios'', ''cors'', ''OpenAI'', ''multer'', ''FormData'', ''fs'', ''path'',
      ''VertexAI'', ''Pool'', ''upload'', ''app'', ''port'', ''saKey'', ''keyPath'', ''openai'',
      ''vertexAI'', ''vertexModel'', ''API_TIMEOUT'', ''axiosInstance'', ''pool'',
      ''streamAssistant'', ''escapeXml'', ''buildSSML'',
      ''require'', ''module'', ''exports'', ''process'', ''console'', ''Buffer'', ''JSON'',
      ''Promise'', ''setTimeout'', ''Boolean'', ''undefined'']"

definition readIdentifier :: "string \<Rightarrow> jserror + unit" where
  "readIdentifier name =
     (if name \<in> set identifiersInScope then Inr ()
      else Inl (ReferenceError (name @ '' is not defined'')))"

text \<open>
  The call \<^verbatim>\<open>buildSSML({ text, voice, leadingSilenceMs: 0, trailingSilenceMs: 0 })\<close> on
  the values of the request: \<^verbatim>\<open>voice.substring\<close> and \<^verbatim>\<open>unsafe.replace\<close> exist on
  strings only.
\<close>

definition callBuildSSML :: "json \<Rightarrow> json \<Rightarrow> jserror + string" where
  "callBuildSSML textV voiceV =
     (case voiceV of
        JStr v \<Rightarrow>
          (case textV of
             JStr t \<Rightarrow>
               Inr (buildSSML \<lparr>ssml_text = t, ssml_voice = v, ssml_style = None,
                      ssml_styleDegree = None, ssml_rate = None, ssml_pitch = None,
                      ssml_volume = None, ssml_leadingSilenceMs = Some 0,
                      ssml_trailingSilenceMs = Some 0\<rparr>)
           | _ \<Rightarrow> Inl (TypeError ''unsafe.replace is not a function''))
      | _ \<Rightarrow> Inl (TypeError ''voice.substring is not a function''))"

text \<open>
  The error detail of a failed call: a \<^verbatim>\<open>Buffer\<close> is decoded, a value whose
  \<^verbatim>\<open>typeof\<close> is \<^verbatim>\<open>object\<close> is serialised, anything else is kept.
\<close>

definition serialised :: "json \<Rightarrow> json" where
  "serialised d = (case stringify d of None \<Rightarrow> JUndefined | Some s \<Rightarrow> JStr s)"

fun decodeData :: "json \<Rightarrow> json" where
  "decodeData (JBuf b) = JStr (utf8Decode b)"
| "decodeData JNull = serialised JNull"
| "decodeData (JArr xs) = serialised (JArr xs)"
| "decodeData (JObj kvs) = serialised (JObj kvs)"
| "decodeData d = d"

definition requestIdOf :: "jserror \<Rightarrow> json" where
  "requestIdOf e =
     orElse (orElse (getProp (responseHeaders e) ''x-requestid'')
                    (getProp (responseHeaders e) ''x-ms-requestid''))
            (JStr [])"

definition azureSpeechFailed :: "env \<Rightarrow> string \<Rightarrow> jserror \<Rightarrow> unit comp" where
  "azureSpeechFailed env ssml err =
     emits [Status (statusOr500 err),
            Json (JObj ([(''error'', JStr ''Azure Speech TTS failed''),
                         (''azureStatus'', JNum (int (statusOr500 err))),
                         (''requestId'', requestIdOf err),
                         (''details'', orElse (decodeData (responseData err)) (JStr ''no-body''))]
                        @ (if env ''DEBUG_TTS'' = Some ''true''
                           then [(''ssml'', JStr ssml)] else [])))]"

definition azureSpeechCall :: "env \<Rightarrow> string \<Rightarrow> upstream_call" where
  "azureSpeechCall env ssml =
     AxiosPost
       (''https://'' @ tmpl (env ''AZURE_REGION_AI_SERVICES'')
        @ ''.tts.speech.microsoft.com/cognitiveservices/v1'')
       (JStr ssml)
       (JObj [(''headers'',
               JObj [(''Ocp-Apim-Subscription-Key'', optJson (env ''AZURE_TTS_KEY_AI_SERVICES'')),
                     (''Content-Type'', JStr ''application/ssml+xml; charset=utf-8''),
                     (''X-Microsoft-OutputFormat'', JStr ''audio-16khz-24kbitrate-mono-mp3'')]),
              (''responseType'', JStr ''arraybuffer''),
              (''timeout'', JNum API_TIMEOUT)])"

definition handler_azureTTS_Scaleway :: "env \<Rightarrow> upstream \<Rightarrow> body \<Rightarrow> unit comp" where
  "handler_azureTTS_Scaleway env up reqBody =
     (if \<not> truthy (getProp reqBody ''text'') then textRequired
      else if \<not> truthyS (env ''AZURE_TTS_KEY_AI_SERVICES'')
              \<or> \<not> truthyS (env ''AZURE_REGION_AI_SERVICES'')
      then emits [Status 500,
                  Json (JObj [(''error'', JStr (''Missing Azure Speech env vars ''
                     @ ''(AZURE_TTS_KEY_AI_SERVICES, AZURE_REGION_AI_SERVICES)''))])]
      else
        andThen (lift (azureVoice (getProp reqBody ''selectedVoice'')
                         (getProp reqBody ''selectedLanguage''))) (\<lambda>voice.
        andThen (lift (readIdentifier ''style'')) (\<lambda>_.
        andThen (lift (callBuildSSML (getProp reqBody ''text'') voice)) (\<lambda>ssml.
        tryCatch
          (andThen (await (azureSpeechCall env ssml) (up_postBuffer up)) sendAudio)
          (\<lambda>sofar err. azureSpeechFailed env ssml err)))))"

subsection \<open>\<^verbatim>\<open>userList\<close> and \<^verbatim>\<open>updateUserGroup\<close>: the datastore\<close>

definition corsHeaders :: "effect list" where
  "corsHeaders =
     [Header ''Access-Control-Allow-Origin'' ''*'',
      Header ''Access-Control-Allow-Methods'' ''GET,POST,OPTIONS'',
      Header ''Access-Control-Allow-Headers'' ''Content-Type'']"

definition insertUser :: string where
  "insertUser =
     ''INSERT INTO userlist (chatbot_name, user_email, name, score, chat_history, ''
     @ ''chat_analysis, usergroup, timesession)'' @ nl
     @ ''                    VALUES ($1, $2, $3, $4, $5, $6, $7, $8::interval)'' @ nl
     @ ''                    RETURNING *''"

definition queryFailed :: "jserror \<Rightarrow> unit comp" where
  "queryFailed err =
     emits ([Status 500] @ corsHeaders @ [Json (JObj [(''error'', JStr (errMessage err))])])"

definition handler_userList :: "upstream \<Rightarrow> body \<Rightarrow> unit comp" where
  "handler_userList up reqBody =
     tryCatch
       (andThen
          (await
             (PoolQuery insertUser
                [getProp reqBody ''chatbotID'', getProp reqBody ''userID'',
                 getProp reqBody ''userName'', getProp reqBody ''userScore'',
                 getProp reqBody ''historique'', getProp reqBody ''rapport'',
                 getProp reqBody ''usergroup'',
                 orElse (getProp reqBody ''timeSession'') (JStr ''N/A'')])
             (up_poolQuery up))
          (\<lambda>(row, rowCount).
             emits ([Status 201] @ corsHeaders
                    @ [Json (JObj [(''message'', JStr ''Utente inserito!''), (''data'', row)])])))
       (\<lambda>sofar err. queryFailed err)"

definition handler_updateUserGroup :: "upstream \<Rightarrow> body \<Rightarrow> unit comp" where
  "handler_updateUserGroup up reqBody =
     tryCatch
       (andThen
          (await
             (PoolQuery ''UPDATE userlist SET usergroup = $1 WHERE user_email = $2''
                [getProp reqBody ''usergroup'', getProp reqBody ''userID''])
             (up_poolQuery up))
          (\<lambda>(row, rowCount).
             emits ([Status 200] @ corsHeaders
                    @ [Json (JObj [(''message'', JStr ''Record aggiornati!''),
                                   (''count'', rowCount),
                                   (''userID'', getProp reqBody ''userID''),
                                   (''usergroup'', getProp reqBody ''usergroup'')])])))
       (\<lambda>sofar err. queryFailed err)"

subsection \<open>\<^verbatim>\<open>elevenlabs\<close>: a voice per language\<close>

definition elevenVoiceMap :: "(string \<times> json) list" where
  "elevenVoiceMap =
     [(''espagnol'', JStr ''l1zE9xgNpUTaQCZzpNJa''),
      (''fran'' @ [CHR 0xE7] @ ''ais'', JStr ''1a3lMdKLUcfcMtvN772u''),
      (''anglais'', JStr ''7tRwuZTD1EWi6nydVerp'')]"

text \<open>
  \<^verbatim>\<open>err.response.data.toString()\<close> inside its own \<^verbatim>\<open>try\<close>: the call throws on
  \<^verbatim>\<open>undefined\<close> and \<^verbatim>\<open>null\<close>, and where the conversion of the value throws.
\<close>

definition dataToString :: "json \<Rightarrow> string" where
  "dataToString d =
     (case d of
        JUndefined \<Rightarrow> ''Unknown error''
      | JNull \<Rightarrow> ''Unknown error''
      | _ \<Rightarrow> (case toStr d of Inl e \<Rightarrow> ''Unknown error'' | Inr s \<Rightarrow> s))"

definition elevenlabsFailed :: "jserror \<Rightarrow> unit comp" where
  "elevenlabsFailed err =
     (case errResponse err of
        Some r \<Rightarrow>
          emits [Status (resp_status r), Json (JObj [(''error'', JStr (dataToString (resp_data r)))])]
      | None \<Rightarrow>
          emits [Status 500, Json (JObj [(''error'', JStr ''Unknown error with ElevenLabs'')])])"

definition handler_elevenlabs :: "env \<Rightarrow> upstream \<Rightarrow> body \<Rightarrow> unit comp" where
  "handler_elevenlabs env up reqBody =
     (if \<not> truthyS (env ''ELEVENLAB_API_KEY'')
      then emits [Status 500, Json (JObj [(''error'', JStr ''ElevenLabs API key missing'')])]
      else
        andThen (lift (normalised ''selectedLanguage'' (getProp reqBody ''selectedLanguage'')))
          (\<lambda>lang.
        if \<not> truthy (getProp elevenVoiceMap lang)
        then emits [Status 400, Json (JObj [(''error'', JStr ''Not supported language'')])]
        else
          andThen (lift (toStr (getProp elevenVoiceMap lang))) (\<lambda>voiceId.
          tryCatch
            (andThen
               (await
                  (AxiosPost
                     (''https://api.elevenlabs.io/v1/text-to-speech/'' @ voiceId @ ''/stream'')
                     (JObj [(''text'', getProp reqBody ''text''),
                            (''model_id'', JStr ''eleven_flash_v2_5''),
                            (''voice_settings'',
                             JObj [(''stability'', JDec 6 1), (''similarity_boost'', JDec 7 1),
                                   (''style'', JDec 1 1)])])
                     (JObj [(''headers'',
                             JObj [(''xi-api-key'', optJson (env ''ELEVENLAB_API_KEY'')),
                                   (''Content-Type'', JStr ''application/json'')]),
                            (''responseType'', JStr ''arraybuffer'')]))
                  (up_postBuffer up))
               sendAudio)
            (\<lambda>sofar err. elevenlabsFailed err))))"

section \<open>The router\<close>

text \<open>
  The catch block around the whole chain of branches: \<^verbatim>\<open>res.status(status).json(...)\<close>.
  \<open>sofar\<close> is what the branch has done. On a response whose headers are sent,
  \<^verbatim>\<open>res.status\<close> still sets the status code, but \<^verbatim>\<open>res.json\<close> sets a header before it
  sends, which throws: no body is sent, and the error leaves the catch block.
\<close>

definition apiRequestError :: "string \<Rightarrow> jserror \<Rightarrow> effect list \<Rightarrow> unit comp" where
  "apiRequestError service error sofar =
     (if headersSent sofar
      then ([Status (statusOr500 error)], Thrown HeadersSent)
      else emits [Status (statusOr500 error),
                  Json (JObj [(''error'', JStr ''API request error''),
                              (''service'', JStr service),
                              (''status'', JNum (int (statusOr500 error))),
                              (''message'', JStr (errMessage error)),
                              (''requestId'', requestIdOf error),
                              (''details'', decodeData (responseData error))])])"

definition invalidService :: "unit comp" where
  "invalidService = emits [Status 400, Json (JObj [(''error'', JStr ''Invalid service'')])]"

definition dispatch :: "env \<Rightarrow> upstream \<Rightarrow> string \<Rightarrow> body \<Rightarrow> unit comp option" where
  "dispatch env up service reqBody =
     (if service = ''azureOpenaiSimulateur'' then Some (handler_azureOpenaiSimulateur env up reqBody)
      else if service = ''vertexChat'' then Some (handler_vertexChat up reqBody)
      else if service = ''openaiSimulateur'' then Some (handler_openaiSimulateur up reqBody)
      else if service = ''assistantOpenaiAnalyse'' then handler_assistantOpenaiAnalyse env up reqBody
      else if service = ''assistantOpenaiAnalyseStreaming''
        then Some (handler_assistantOpenaiAnalyseStreaming env up reqBody)
      else if service = ''openaiAnalyse'' then Some (handler_openaiAnalyse up reqBody)
      else if service = ''azureOpenaiAnalyse'' then Some (handler_azureOpenaiAnalyse env up reqBody)
      else if service = ''openai-tts'' then Some (handler_openai_tts env up reqBody)
      else if service = ''azureTTS-Scaleway'' then Some (handler_azureTTS_Scaleway env up reqBody)
      else if service = ''streaming-openai-tts'' then Some (handler_streaming_openai_tts up reqBody)
      else if service = ''azureTextToSpeech'' then Some (handler_azureTextToSpeech env up reqBody)
      else if service = ''userList'' then Some (handler_userList up reqBody)
      else if service = ''updateUserGroup'' then Some (handler_updateUserGroup up reqBody)
      else if service = ''elevenlabs'' then Some (handler_elevenlabs env up reqBody)
      else Some invalidService)"

text \<open>
  One request to \<^verbatim>\<open>POST /api/:service\<close>: what the handler does, and whether its promise
  resolves or rejects. \<open>None\<close> is the request whose poll never ends.
\<close>

definition router :: "env \<Rightarrow> upstream \<Rightarrow> string \<Rightarrow> body \<Rightarrow> unit comp option" where
  "router env up service reqBody =
     (case dispatch env up service reqBody of
        None \<Rightarrow> None
      | Some m \<Rightarrow> Some (tryCatch m (\<lambda>sofar error. apiRequestError service error sofar)))"

text \<open>The frames and chunks a request wrote with \<^verbatim>\<open>res.write\<close>, in order.\<close>

fun written :: "effect list \<Rightarrow> string list" where
  "written [] = []"
| "written (Write s # es) = s # written es"
| "written (ef # es) = written es"

section \<open>Vocabulary of the statements\<close>

text \<open>The service names that the chain of branches tests, in its order.\<close>

definition handledServices :: "string list" where
  "handledServices =
     [''azureOpenaiSimulateur'', ''vertexChat'', ''openaiSimulateur'', ''assistantOpenaiAnalyse'',
      ''assistantOpenaiAnalyseStreaming'', ''openaiAnalyse'', ''azureOpenaiAnalyse'',
      ''openai-tts'', ''azureTTS-Scaleway'', ''streaming-openai-tts'', ''azureTextToSpeech'',
      ''userList'', ''updateUserGroup'', ''elevenlabs'']"

text \<open>A run status on which the poll goes on, and the effects of \<open>n\<close> rounds of the poll.\<close>

definition pending :: "json \<Rightarrow> bool" where
  "pending status = (status \<noteq> JStr ''completed'' \<and> status \<noteq> JStr ''failed'')"

definition polls :: "nat \<Rightarrow> json \<Rightarrow> json \<Rightarrow> effect list" where
  "polls n threadId runId =
     concat (replicate n [Sleep 1000, Upstream (RunsRetrieve threadId runId)])"

text \<open>How a \<^verbatim>\<open>for await\<close> loop ends.\<close>

definition finished :: "jserror option \<Rightarrow> unit outcome" where
  "finished fin = (case fin of None \<Rightarrow> Returned () | Some e \<Rightarrow> Thrown e)"

text \<open>
  The text of the frame that carries a delta, character by character: \<^verbatim>\<open>data: {"delta":J}\<close>
  and, in the format of a chat completion chunk,
  \<^verbatim>\<open>data: {"choices":[{"delta":{"content":J}}]}\<close>, each followed by two line feeds, where
  \<^verbatim>\<open>J\<close> is the JSON text of the delta. A value that has no JSON text (a function) leaves
  its member out.
\<close>

definition deltaFrame :: "json \<Rightarrow> string" where
  \<open>deltaFrame d =
     ''data: {'' @ (case stringify d of None \<Rightarrow> [] | Some j \<Rightarrow> ''"delta":'' @ j) @ ''}''
     @ [CHR 0x0A, CHR 0x0A]\<close>

definition choicesFrame :: "json \<Rightarrow> string" where
  \<open>choicesFrame d =
     ''data: {"choices":[{"delta":{''
     @ (case stringify d of None \<Rightarrow> [] | Some j \<Rightarrow> ''"content":'' @ j) @ ''}}]}''
     @ [CHR 0x0A, CHR 0x0A]\<close>

text \<open>The calls that append messages to an existing thread.\<close>

definition appended :: "json \<Rightarrow> json list \<Rightarrow> effect list" where
  "appended threadId msgs = map (\<lambda>m. Upstream (MessagesCreate threadId m)) msgs"

text \<open>
  A frame that announces a thread, \<^verbatim>\<open>data: {"threadId": ...\<close>, and an action of a request
  that reuses a thread: it creates no thread and writes no such frame.
\<close>

definition threadIdFrame :: "string \<Rightarrow> bool" where
  "threadIdFrame frame = prefix (''data: {'' @ quote ''threadId'' @ '':'') frame"

definition reusesThread :: "effect \<Rightarrow> bool" where
  "reusesThread ef =
     (case ef of
        Upstream (ThreadsCreate c) \<Rightarrow> False
      | Write frame \<Rightarrow> \<not> threadIdFrame frame
      | _ \<Rightarrow> True)"

text \<open>A field that holds a string, or a value that \<^verbatim>\<open>||\<close> and \<^verbatim>\<open>&&\<close> skip.\<close>

definition stringOrFalsy :: "json \<Rightarrow> bool" where
  "stringOrFalsy v = (case v of JStr s \<Rightarrow> True | _ \<Rightarrow> \<not> truthy v)"

text \<open>The message of the error that ends the \<^verbatim>\<open>azureTTS-Scaleway\<close> branch.\<close>

definition scalewayMessage :: "body \<Rightarrow> string" where
  "scalewayMessage reqBody =
     (case azureVoice (getProp reqBody ''selectedVoice'') (getProp reqBody ''selectedLanguage'') of
        Inl e \<Rightarrow> errMessage e
      | Inr voice \<Rightarrow> ''style is not defined'')"

text \<open>The SSML document before the style wrapper and after the text.\<close>

definition ssmlOpening :: "ssml_params \<Rightarrow> string" where
  \<open>ssmlOpening p =
     ''<speak version="1.0" xmlns:mstts="https://www.w3.org/2001/mstts" xml:lang="''
       @ substring (ssml_voice p) 0 5 @ ''">'' @ nl
     @ ''  <voice name="'' @ ssml_voice p @ ''">'' @ nl
     @ ''    <mstts:silence type="Leading" value="''
       @ showNat (defaultMs (ssml_leadingSilenceMs p)) @ ''ms"/>'' @ nl
     @ ''    <mstts:silence type="Tailing" value="''
       @ showNat (defaultMs (ssml_trailingSilenceMs p)) @ ''ms"/>'' @ nl
     @ ''    ''\<close>

definition ssmlClosing :: "ssml_params \<Rightarrow> string" where
  \<open>ssmlClosing p =
     nl @ ''      '' @ closeProsody p @ nl
     @ ''    '' @ expressClose p @ nl
     @ ''  </voice>'' @ nl
     @ ''</speak>''\<close>

subsection \<open>Concrete requests\<close>

definition exampleEnv :: env where
  "exampleEnv =
     map_of [(''OPENAI_API_KEY_SIMULATEUR'', ''sk-1''), (''OPENAI_ASSISTANTID'', ''asst_1''),
             (''ELEVENLAB_API_KEY'', ''el-1''), (''AZURE_TTS_KEY_AI_SERVICES'', ''az-1''),
             (''AZURE_REGION_AI_SERVICES'', ''westeurope''),
             (''AZURE_TTS_ENDPOINT'', ''https://tts.example''), (''AZURE_TTS_KEY'', ''az-2'')]"

definition exampleUpstream :: upstream where
  "exampleUpstream =
     \<lparr>up_postStream = Inr ([''data: x''], True),
      up_postJson = Inr (JObj []),
      up_postBuffer = Inr (JBuf ''ID3''),
      up_generateContent = Inr (JStr ''Salut''),
      up_generateContentStream = Inr ([JStr ''Sa'', JStr ''lut''], None),
      up_chatCompletions = Inr (([JStr ''Bon'', JUndefined, JStr ''jour''], None), JNum 12),
      up_threadsCreate = Inr (JStr ''thread_1''),
      up_runsCreate = Inr (JStr ''run_1''),
      up_runsRetrieve = (\<lambda>i. Inr (JStr (if i < 2 then ''in_progress'' else ''failed''))),
      up_messagesList = Inr (JStr ''Bien''),
      up_messagesCreate = (\<lambda>i. Inr ()),
      up_createAndStream = Inr ([JStr ''Bien''], None),
      up_speechCreate = Inr ([''ID3''], True),
      up_poolQuery = Inr (JObj [], JNum 1)\<rparr>"

text \<open>An upstream whose chat stream breaks after two deltas.\<close>

definition brokenStream :: upstream where
  "brokenStream =
     exampleUpstream
       \<lparr>up_chatCompletions :=
          Inr (([JStr ''Bon'', JStr ''jour''], Some (Failure ''socket hang up'' None)), JUndefined)\<rparr>"

text \<open>An upstream whose chat stream holds an event with an empty delta.\<close>

definition emptyDelta :: upstream where
  "emptyDelta =
     exampleUpstream
       \<lparr>up_chatCompletions := Inr (([JStr ''Bon'', JStr [], JStr ''jour''], None), JNum 12)\<rparr>"

definition exampleChat :: body where
  "exampleChat =
     [(''model'', JStr ''gpt-4o''),
      (''messages'', JArr [JObj [(''role'', JStr ''user''), (''content'', JStr ''Salut'')]])]"

definition exampleFollowUp :: body where
  "exampleFollowUp =
     [(''threadId'', JStr ''thread_7''),
      (''messages'', JArr [JObj [(''role'', JStr ''user''), (''content'', JStr ''Encore'')]])]"

definition exampleSpeech :: ssml_params where
  \<open>exampleSpeech =
     \<lparr>ssml_text = ''Tom & Jerry'',
      ssml_voice = ''x"><break/>'',
      ssml_style = Some ''sad" role="x'',
      ssml_styleDegree = Some ''2'',
      ssml_rate = Some ''+12%'',
      ssml_pitch = Some ''<st>'',
      ssml_volume = Some ''loud'',
      ssml_leadingSilenceMs = None,
      ssml_trailingSilenceMs = Some 250\<rparr>\<close>

section \<open>Properties of the handler monad and of the helpers\<close>

lemmas comp_defs = andThen_def emits_def await_def lift_def tryCatch_def ret_def

lemma written_append: "written (xs @ ys) = written xs @ written ys"
  by (induction xs rule: written.induct) simp_all

lemma written_headers: "written eventStreamHeaders = []"
  by (simp add: eventStreamHeaders_def)

text \<open>
  A relay loop in closed form: event by event, the arrival and then what the body of the
  loop does with the delta.
\<close>

lemma forAwait_writeDelta:
  "forAwait (writeDelta envelope) xs fin =
     (concat (map (\<lambda>d. Arrived d # writeDelta envelope d) xs), finished fin)"
proof (induction xs)
  case Nil
  show ?case by (cases fin) (simp_all add: finished_def)
next
  case (Cons x xs)
  then show ?case by simp
qed

lemma written_relayed:
  "written (concat (map (\<lambda>d. Arrived d # writeDelta envelope d) xs))
     = map (\<lambda>d. sse (envelope d)) (filter truthy xs)"
  by (induction xs) (simp_all add: writeDelta_def written_append)

lemma no_End_relayed:
  "filter (\<lambda>ef. ef = End) (concat (map (\<lambda>d. Arrived d # writeDelta envelope d) xs)) = []"
  by (induction xs) (simp_all add: writeDelta_def)

lemma quote_delta: "quote ''delta'' = [CHR 0x22] @ ''delta'' @ [CHR 0x22]"
  by code_simp

lemma quote_content: "quote ''content'' = [CHR 0x22] @ ''content'' @ [CHR 0x22]"
  by code_simp

lemma quote_choices: "quote ''choices'' = [CHR 0x22] @ ''choices'' @ [CHR 0x22]"
  by code_simp

text \<open>The frames that the relay loops build with \<^verbatim>\<open>JSON.stringify\<close> are the literal ones.\<close>

lemma sse_deltaEnvelope: "sse (deltaEnvelope d) = deltaFrame d"
  by (cases "stringify d")
     (simp_all add: sse_def deltaEnvelope_def deltaFrame_def objMember_def quote_delta nl_def)

lemma sse_choicesEnvelope: "sse (choicesEnvelope d) = choicesFrame d"
  by (cases "stringify d")
     (simp_all add: sse_def choicesEnvelope_def choicesFrame_def objMember_def element_def
        quote_delta quote_content quote_choices nl_def)

lemma relayed_deltaFrame:
  "concat (map (\<lambda>d. Arrived d # writeDelta deltaEnvelope d) xs)
     = concat (map (\<lambda>d. if truthy d then [Arrived d, Write (deltaFrame d)] else [Arrived d]) xs)"
  by (induction xs) (simp_all add: writeDelta_def sse_deltaEnvelope)

lemma relayed_choicesFrame:
  "concat (map (\<lambda>d. Arrived d # writeDelta choicesEnvelope d) xs)
     = concat (map (\<lambda>d. if truthy d then [Arrived d, Write (choicesFrame d)] else [Arrived d]) xs)"
  by (induction xs) (simp_all add: writeDelta_def sse_choicesEnvelope)

lemma headersSent_flushed: "headersSent (eventStreamHeaders @ FlushHeaders # es)"
  by (simp add: headersSent_def eventStreamHeaders_def)

lemma callTrim_Inl: "callTrim expr v = Inl e \<Longrightarrow> errResponse e = None"
  by (auto simp: callTrim_def split: json.splits)

lemma normalised_Inl: "normalised name v = Inl e \<Longrightarrow> errResponse e = None"
  by (auto simp: normalised_def split: sum.splits dest: callTrim_Inl)

lemma azureVoice_Inl: "azureVoice sv sl = Inl e \<Longrightarrow> errResponse e = None"
  by (cases "callTrim ''selectedVoice'' sv")
     (auto simp: azureVoice_def split: sum.splits if_splits dest: callTrim_Inl normalised_Inl)

lemma normalised_string:
  "stringOrFalsy v \<Longrightarrow>
     normalised name v = Inr (toLowerCase (trim (case v of JStr s \<Rightarrow> s | _ \<Rightarrow> [])))"
  by (cases v) (auto simp: stringOrFalsy_def normalised_def callTrim_def orElse_def)

lemma azureVoice_total:
  "stringOrFalsy sv \<Longrightarrow> stringOrFalsy sl \<Longrightarrow> \<exists>v. azureVoice sv sl = Inr v"
  by (cases sv) (auto simp: azureVoice_def normalised_string callTrim_def stringOrFalsy_def)

section \<open>The router's fallback\<close>

text \<open>
  Claim C7. A request to \<^verbatim>\<open>POST /api/:service\<close> whose service name is none of the names
  the router handles is answered with status 400 and the body
  \<^verbatim>\<open>{error: "Invalid service"}\<close>; these two calls on the response are all the request
  does, so no upstream call is made. (\<^verbatim>\<open>POST /api/transcribe\<close> has a route of its own,
  registered first, and does not reach this handler.)
\<close>

theorem invalid_service:
  assumes "service \<notin> set handledServices"
  shows "router env up service reqBody =
           Some ([Status 400, Json (JObj [(''error'', JStr ''Invalid service'')])], Returned ())"
  using assms
  by (simp add: handledServices_def router_def dispatch_def invalidService_def comp_defs)

theorem invalid_service_witness:
  "''azureTTS'' \<notin> set handledServices
   \<and> router exampleEnv exampleUpstream ''azureTTS'' exampleChat =
       Some ([Status 400, Json (JObj [(''error'', JStr ''Invalid service'')])], Returned ())"
proof -
  have h: "''azureTTS'' \<notin> set handledServices"
    by (simp add: handledServices_def)
  from invalid_service[OF h] h show ?thesis by blast
qed

section \<open>The poll of the analysis service\<close>

lemma polls_Suc: "polls (Suc n) t r = [Sleep 1000, Upstream (RunsRetrieve t r)] @ polls n t r"
  by (simp add: polls_def)

lemma pollRun_terminal:
  assumes "\<forall>j<n. \<exists>s. retrieve (i + j) = Inr s \<and> pending s"
      and "retrieve (i + n) = Inr st"
      and "\<not> pending st"
  shows "pollRun retrieve t r i sofar = Some (sofar @ polls (Suc n) t r, Returned st)"
  using assms
proof (induction n arbitrary: i sofar)
  case 0
  then show ?case
    by (subst pollRun.simps) (auto simp: pending_def polls_def)
next
  case (Suc n)
  from Suc.prems(1) obtain s where s: "retrieve i = Inr s" "pending s"
    by (metis add.right_neutral zero_less_Suc)
  have step: "\<forall>j<n. \<exists>s. retrieve (Suc i + j) = Inr s \<and> pending s"
    using Suc.prems(1) by (metis Suc_less_eq add_Suc_right add_Suc_shift)
  have final: "retrieve (Suc i + n) = Inr st"
    using Suc.prems(2) by simp
  have "pollRun retrieve t r i sofar =
          pollRun retrieve t r (Suc i) (sofar @ [Sleep 1000, Upstream (RunsRetrieve t r)])"
    using s by (subst pollRun.simps) (simp add: pending_def)
  also have "\<dots> = Some ((sofar @ [Sleep 1000, Upstream (RunsRetrieve t r)]) @ polls (Suc n) t r,
                        Returned st)"
    by (rule Suc.IH[OF step final Suc.prems(3)])
  finally show ?case by (simp add: polls_Suc)
qed

text \<open>
  Claim C3. The poll-based analysis service creates a thread and a run, then sleeps one
  second and retrieves the run, again and again, until the status is \<^verbatim>\<open>completed\<close> or
  \<^verbatim>\<open>failed\<close>. When the upstream calls succeed and the run reaches such a status at its
  retrieval number \<open>n\<close> (counted from 0), the request makes exactly \<open>n + 1\<close> rounds of the
  poll and returns: on \<^verbatim>\<open>completed\<close> it lists the latest message and answers with the one
  JSON body \<^verbatim>\<open>{answer}\<close>; on any other final status it answers with status 500 and
  \<^verbatim>\<open>{error: "Assistant run failed", details: status}\<close> and lists no message. Nothing is
  written as a stream.
\<close>

theorem poll_until_complete:
  assumes "up_threadsCreate up = Inr threadId"
      and "up_runsCreate up = Inr runId"
      and "\<forall>j<n. \<exists>s. up_runsRetrieve up j = Inr s \<and> pending s"
      and "up_runsRetrieve up n = Inr status"
      and "\<not> pending status"
      and "up_messagesList up = Inr answer"
  shows "router env up ''assistantOpenaiAnalyse'' reqBody =
           Some ([Upstream (ThreadsCreate (JObj [(''messages'', getProp reqBody ''messages'')])),
                  Upstream (RunsCreate threadId
                              (JObj [(''assistant_id'', optJson (env ''OPENAI_ASSISTANTID''))]))]
                 @ polls (Suc n) threadId runId
                 @ (if status = JStr ''completed''
                    then [Upstream (MessagesList threadId
                                      (JObj [(''limit'', JNum 1), (''order'', JStr ''desc'')])),
                          Json (JObj [(''answer'', orElse answer (JStr []))])]
                    else [Status 500,
                          Json (JObj [(''error'', JStr ''Assistant run failed''),
                                      (''details'', status)])]),
                 Returned ())"
proof -
  have create: "createThreadAndRun env up reqBody =
      ([Upstream (ThreadsCreate (JObj [(''messages'', getProp reqBody ''messages'')])),
        Upstream (RunsCreate threadId
                    (JObj [(''assistant_id'', optJson (env ''OPENAI_ASSISTANTID''))]))],
       Returned (threadId, runId))"
    using assms(1,2) by (simp add: createThreadAndRun_def comp_defs)
  have poll: "pollRun (up_runsRetrieve up) threadId runId 0 sofar
                = Some (sofar @ polls (Suc n) threadId runId, Returned status)" for sofar
    using pollRun_terminal[of n "up_runsRetrieve up" 0 status threadId runId sofar] assms(3,4,5)
    by simp
  show ?thesis
    using assms(6)
    by (simp add: router_def dispatch_def handler_assistantOpenaiAnalyse_def create poll
                  answerRun_def comp_defs)
qed

theorem poll_until_complete_witness:
  "up_runsRetrieve exampleUpstream 0 = Inr (JStr ''in_progress'')
   \<and> up_runsRetrieve exampleUpstream 1 = Inr (JStr ''in_progress'')
   \<and> up_runsRetrieve exampleUpstream 2 = Inr (JStr ''failed'')
   \<and> pending (JStr ''in_progress'') \<and> \<not> pending (JStr ''failed'')
   \<and> router exampleEnv exampleUpstream ''assistantOpenaiAnalyse'' exampleChat =
       Some ([Upstream (ThreadsCreate (JObj [(''messages'', getProp exampleChat ''messages'')])),
              Upstream (RunsCreate (JStr ''thread_1'') (JObj [(''assistant_id'', JStr ''asst_1'')])),
              Sleep 1000, Upstream (RunsRetrieve (JStr ''thread_1'') (JStr ''run_1'')),
              Sleep 1000, Upstream (RunsRetrieve (JStr ''thread_1'') (JStr ''run_1'')),
              Sleep 1000, Upstream (RunsRetrieve (JStr ''thread_1'') (JStr ''run_1'')),
              Status 500,
              Json (JObj [(''error'', JStr ''Assistant run failed''),
                          (''details'', JStr ''failed'')])],
             Returned ())"
proof -
  have r: "up_runsRetrieve exampleUpstream 0 = Inr (JStr ''in_progress'')"
          "up_runsRetrieve exampleUpstream 1 = Inr (JStr ''in_progress'')"
          "up_runsRetrieve exampleUpstream 2 = Inr (JStr ''failed'')"
    by (simp_all add: exampleUpstream_def)
  have p: "pending (JStr ''in_progress'')" "\<not> pending (JStr ''failed'')"
    by (simp_all add: pending_def)
  have early: "\<forall>j<2. \<exists>s. up_runsRetrieve exampleUpstream j = Inr s \<and> pending s"
    by (simp add: exampleUpstream_def pending_def)
  have t: "up_threadsCreate exampleUpstream = Inr (JStr ''thread_1'')"
          "up_runsCreate exampleUpstream = Inr (JStr ''run_1'')"
          "up_messagesList exampleUpstream = Inr (JStr ''Bien'')"
    by (simp_all add: exampleUpstream_def)
  have "router exampleEnv exampleUpstream ''assistantOpenaiAnalyse'' exampleChat =
       Some ([Upstream (ThreadsCreate (JObj [(''messages'', getProp exampleChat ''messages'')])),
              Upstream (RunsCreate (JStr ''thread_1'') (JObj [(''assistant_id'', JStr ''asst_1'')])),
              Sleep 1000, Upstream (RunsRetrieve (JStr ''thread_1'') (JStr ''run_1'')),
              Sleep 1000, Upstream (RunsRetrieve (JStr ''thread_1'') (JStr ''run_1'')),
              Sleep 1000, Upstream (RunsRetrieve (JStr ''thread_1'') (JStr ''run_1'')),
              Status 500,
              Json (JObj [(''error'', JStr ''Assistant run failed''),
                          (''details'', JStr ''failed'')])],
             Returned ())"
    using poll_until_complete[OF t(1) t(2) early r(3) p(2) t(3), of exampleEnv exampleChat]
    by (simp add: polls_def exampleEnv_def optJson_def numeral_3_eq_3)
  with r p show ?thesis by blast
qed

section \<open>The streaming relay\<close>

lemma vertexStreaming_trace:
  assumes "up_generateContentStream up = Inr (items, fin)"
  shows "vertexStreaming up prompt =
           (eventStreamHeaders
            @ [FlushHeaders, Upstream (GenerateContentStream (JObj (vertexRequest prompt)))]
            @ concat (map (\<lambda>d. Arrived d # writeDelta deltaEnvelope d) items)
            @ (case fin of
                 None \<Rightarrow> [Write doneFrame, End]
               | Some err \<Rightarrow> [Write (sse (JObj [(''error'', JStr (errMessage err))])),
                              Write doneFrame, End]),
            Returned ())"
  using assms
  by (cases fin)
     (simp_all add: vertexStreaming_def comp_defs forAwait_writeDelta finished_def
        headersSent_flushed)

lemma vertexStreaming_rejected:
  assumes "up_generateContentStream up = Inl err"
  shows "vertexStreaming up prompt =
           (eventStreamHeaders
            @ [FlushHeaders, Upstream (GenerateContentStream (JObj (vertexRequest prompt))),
               Write (sse (JObj [(''error'', JStr (errMessage err))])), Write doneFrame, End],
            Returned ())"
  using assms
  by (simp add: vertexStreaming_def comp_defs headersSent_flushed)

text \<open>
  The streaming branch of \<^verbatim>\<open>vertexChat\<close> keeps the sentinel last and ends the response
  once, whatever the upstream does.
\<close>

lemma vertexStreaming_terminated:
  "\<exists>es. vertexStreaming up prompt = (es, Returned ())
      \<and> last (written es) = doneFrame \<and> last es = End
      \<and> length (filter (\<lambda>ef. ef = End) es) = 1"
proof (cases "up_generateContentStream up")
  case (Inl err)
  show ?thesis
    unfolding vertexStreaming_rejected[OF Inl]
    by (simp add: written_append written_headers eventStreamHeaders_def)
next
  case (Inr feed)
  obtain items fin where "feed = (items, fin)" by (cases feed)
  with Inr have f: "up_generateContentStream up = Inr (items, fin)" by simp
  show ?thesis
    unfolding vertexStreaming_trace[OF f]
    by (cases fin)
       (simp_all add: written_append written_headers written_relayed eventStreamHeaders_def
          no_End_relayed)
qed

lemma appendMessages_all:
  assumes "\<forall>j<length msgs. create (i + j) = Inr ()"
  shows "appendMessages create t msgs i = (appended t msgs, Returned ())"
  using assms
proof (induction msgs arbitrary: i)
  case Nil
  show ?case by (simp add: appended_def ret_def)
next
  case (Cons m msgs)
  have head: "create i = Inr ()" using Cons.prems by force
  have "\<forall>j<length msgs. create (Suc i + j) = Inr ()"
    using Cons.prems by (metis Suc_less_eq add_Suc_right add_Suc_shift length_Cons)
  from Cons.IH[OF this] head show ?case
    by (simp add: appended_def comp_defs)
qed

lemma appendMessages_some:
  "\<exists>k out. appendMessages create t msgs i = (appended t (take k msgs), out)"
proof (induction msgs arbitrary: i)
  case Nil
  show ?case by (simp add: appended_def ret_def)
next
  case (Cons m msgs)
  show ?case
  proof (cases "create i")
    case (Inl e)
    then have "appendMessages create t (m # msgs) i = (appended t (take 1 (m # msgs)), Thrown e)"
      by (simp add: appended_def comp_defs)
    then show ?thesis by blast
  next
    case (Inr u)
    obtain k out where "appendMessages create t msgs (Suc i) = (appended t (take k msgs), out)"
      using Cons.IH by blast
    with Inr have "appendMessages create t (m # msgs) i
                     = (appended t (take (Suc k) (m # msgs)), out)"
      by (simp add: appended_def comp_defs)
    then show ?thesis by blast
  qed
qed

lemma openThread_existing:
  assumes "truthy (getProp reqBody ''threadId'')"
  shows "\<exists>msgs out. openThread up reqBody = (appended (getProp reqBody ''threadId'') msgs, out)
            \<and> (out = Returned (getProp reqBody ''threadId'') \<or> (\<exists>e. out = Thrown e))"
proof (cases "iterate (getProp reqBody ''messages'')")
  case (Inl e)
  with assms have "openThread up reqBody = (appended (getProp reqBody ''threadId'') [], Thrown e)"
    by (simp add: openThread_def comp_defs appended_def)
  then show ?thesis by blast
next
  case (Inr msgs)
  obtain k out where a:
    "appendMessages (up_messagesCreate up) (getProp reqBody ''threadId'') msgs 0
       = (appended (getProp reqBody ''threadId'') (take k msgs), out)"
    using appendMessages_some by blast
  show ?thesis
  proof (cases out)
    case (Returned u)
    with assms Inr a have "openThread up reqBody
        = (appended (getProp reqBody ''threadId'') (take k msgs),
           Returned (getProp reqBody ''threadId''))"
      by (simp add: openThread_def comp_defs)
    then show ?thesis by blast
  next
    case (Thrown e)
    with assms Inr a have "openThread up reqBody
        = (appended (getProp reqBody ''threadId'') (take k msgs), Thrown e)"
      by (simp add: openThread_def comp_defs)
    then show ?thesis by blast
  qed
qed

lemma openThread_existing_all:
  assumes "truthy (getProp reqBody ''threadId'')"
      and "iterate (getProp reqBody ''messages'') = Inr msgs"
      and "\<forall>j<length msgs. up_messagesCreate up j = Inr ()"
  shows "openThread up reqBody
           = (appended (getProp reqBody ''threadId'') msgs, Returned (getProp reqBody ''threadId''))"
  using assms appendMessages_all[of msgs "up_messagesCreate up" 0 "getProp reqBody ''threadId''"]
  by (simp add: openThread_def comp_defs)

lemma written_appended: "written (appended t msgs) = []"
  unfolding appended_def by (induction msgs) simp_all

lemma written_openThread: "written (fst (openThread up reqBody)) = []"
proof (cases "truthy (getProp reqBody ''threadId'')")
  case True
  from openThread_existing[OF True, of up] show ?thesis
    by (auto simp: written_appended)
next
  case False
  then show ?thesis by (simp add: openThread_def await_def)
qed

text \<open>
  What each relaying branch does, action by action, for a stream that was opened. An
  error of the stream leaves the branches \<^verbatim>\<open>openaiSimulateur\<close> and
  \<^verbatim>\<open>assistantOpenaiAnalyseStreaming\<close>, which have no catch block of their own, and
  reaches the router's catch block after the headers were sent.
\<close>

lemma openaiSimulateur_trace:
  assumes "up_chatCompletions up = Inr ((parts, fin), totalTokens)"
  shows "router env up ''openaiSimulateur'' reqBody =
           Some (eventStreamHeaders
                 @ [FlushHeaders, Upstream (ChatCompletionsCreate (chatRequest reqBody))]
                 @ concat (map (\<lambda>d. if truthy d then [Arrived d, Write (choicesFrame d)]
                                     else [Arrived d]) parts)
                 @ (case fin of
                      None \<Rightarrow>
                        [Write (sse (JObj [(''usage'',
                                  JObj [(''total_tokens'', orElse totalTokens (JNum 0))])])),
                         Write doneFrame, End]
                    | Some err \<Rightarrow> [Status (statusOr500 err)]),
                 case fin of None \<Rightarrow> Returned () | Some err \<Rightarrow> Thrown HeadersSent)"
  using assms
  by (cases fin)
     (simp_all add: router_def dispatch_def handler_openaiSimulateur_def comp_defs
        forAwait_writeDelta finished_def relayed_choicesFrame apiRequestError_def
        headersSent_flushed)

lemma openaiAnalyse_trace:
  assumes "up_chatCompletions up = Inr ((parts, fin), totalTokens)"
  shows "router env up ''openaiAnalyse'' reqBody =
           Some (eventStreamHeaders
                 @ [SetHeader ''Connection'' ''keep-alive'',
                    SetHeader ''Access-Control-Allow-Origin'' ''*'',
                    FlushHeaders, Upstream (ChatCompletionsCreate (chatRequest reqBody))]
                 @ concat (map (\<lambda>d. if truthy d then [Arrived d, Write (deltaFrame d)]
                                     else [Arrived d]) parts)
                 @ (case fin of
                      None \<Rightarrow> [Write doneFrame, End]
                    | Some err \<Rightarrow>
                        [Write (sse (JObj [(''error'', JStr ''Errore durante lo streaming AI.'')])),
                         End]),
                 Returned ())"
  using assms
  by (cases fin)
     (simp_all add: router_def dispatch_def handler_openaiAnalyse_def comp_defs
        forAwait_writeDelta finished_def relayed_deltaFrame)

lemma vertexChat_trace:
  assumes "promptText (getProp reqBody ''messages'') = Inr prompt"
      and "getProp reqBody ''stream'' \<noteq> JBool False"
      and "up_generateContentStream up = Inr (items, fin)"
  shows "router env up ''vertexChat'' reqBody =
           Some (eventStreamHeaders
                 @ [FlushHeaders, Upstream (GenerateContentStream (JObj (vertexRequest prompt)))]
                 @ concat (map (\<lambda>d. if truthy d then [Arrived d, Write (deltaFrame d)]
                                     else [Arrived d]) items)
                 @ (case fin of
                      None \<Rightarrow> [Write doneFrame, End]
                    | Some err \<Rightarrow> [Write (sse (JObj [(''error'', JStr (errMessage err))])),
                                   Write doneFrame, End]),
                 Returned ())"
  using assms
  by (cases fin)
     (simp_all add: router_def dispatch_def handler_vertexChat_def vertexStreaming_trace
        comp_defs relayed_deltaFrame)

lemma assistantStreaming_trace:
  assumes "snd (openThread up reqBody) = Returned threadId"
      and "up_createAndStream up = Inr (events, fin)"
  shows "router env up ''assistantOpenaiAnalyseStreaming'' reqBody =
           Some (fst (openThread up reqBody)
                 @ eventStreamHeaders
                 @ [FlushHeaders]
                 @ (if \<not> truthy (getProp reqBody ''threadId'')
                    then [Write (sse (JObj [(''threadId'', threadId)]))] else [])
                 @ [Upstream (RunsCreateAndStream threadId
                      (JObj [(''assistant_id'', optJson (env ''OPENAI_ASSISTANTID'')),
                             (''stream'', JBool True)]))]
                 @ concat (map (\<lambda>d. if truthy d then [Arrived d, Write (deltaFrame d)]
                                     else [Arrived d]) events)
                 @ (case fin of
                      None \<Rightarrow> [Write doneFrame, End]
                    | Some err \<Rightarrow> [Status (statusOr500 err)]),
                 case fin of None \<Rightarrow> Returned () | Some err \<Rightarrow> Thrown HeadersSent)"
proof -
  obtain sofar where o: "openThread up reqBody = (sofar, Returned threadId)"
    using assms(1) by (cases "openThread up reqBody") simp
  have h: "headersSent (sofar @ eventStreamHeaders @ FlushHeaders # es)" for es
    by (simp add: headersSent_def eventStreamHeaders_def)
  show ?thesis
    using assms(2) o h
    by (cases fin)
       (simp_all add: router_def dispatch_def handler_assistantOpenaiAnalyseStreaming_def
          comp_defs forAwait_writeDelta finished_def relayed_deltaFrame apiRequestError_def)
qed

text \<open>
  A message whose content cannot be converted to a string: the prompt of \<^verbatim>\<open>vertexChat\<close>
  cannot be built, and the request is answered by the router's catch block before
  anything is streamed.
\<close>

lemma vertexChat_unconvertible_content:
  "router exampleEnv exampleUpstream ''vertexChat''
     [(''messages'', JArr [JObj [(''role'', JStr ''user''),
                                 (''content'', JObj [(''toString'', JNum 1)])]])] =
     Some ([Status 500,
            Json (JObj [(''error'', JStr ''API request error''),
                        (''service'', JStr ''vertexChat''),
                        (''status'', JNum 500),
                        (''message'', JStr ''Cannot convert object to primitive value''),
                        (''requestId'', JStr []),
                        (''details'', JUndefined)])],
           Returned ())"
  by code_simp

text \<open>
  Claim C4, as amended. In every SSE relay (\<^verbatim>\<open>openaiSimulateur\<close>, \<^verbatim>\<open>openaiAnalyse\<close>,
  \<^verbatim>\<open>vertexChat\<close> in streaming mode, \<^verbatim>\<open>assistantOpenaiAnalyseStreaming\<close>) and for every
  sequence of upstream events, the request is, once the stream is opened, one step per
  event, in the order of arrival: the event arrives and, if its delta is truthy (the test
  \<^verbatim>\<open>if (delta)\<close>), one frame is written that holds the JSON text of that delta and of no
  other, before the next event arrives; if its delta is absent, empty or otherwise falsy,
  nothing is written for it. Nothing else is written between the first arrival and the
  end of the stream: no frame is held back, moved or merged with another. What follows
  the last event is the end of the relay: the closing frames, or what the branch does
  with the error of the stream. For \<^verbatim>\<open>vertexChat\<close> the messages of the body are such that
  the prompt can be built, and for the analysis service the thread was opened.
\<close>

theorem relay_in_arrival_order:
  "(up_chatCompletions up = Inr ((parts, fin), totalTokens) \<longrightarrow>
      router env up ''openaiSimulateur'' reqBody =
        Some (eventStreamHeaders
              @ [FlushHeaders, Upstream (ChatCompletionsCreate (chatRequest reqBody))]
              @ concat (map (\<lambda>d. if truthy d then [Arrived d, Write (choicesFrame d)]
                                  else [Arrived d]) parts)
              @ (case fin of
                   None \<Rightarrow>
                     [Write (sse (JObj [(''usage'',
                               JObj [(''total_tokens'', orElse totalTokens (JNum 0))])])),
                      Write doneFrame, End]
                 | Some err \<Rightarrow> [Status (statusOr500 err)]),
              case fin of None \<Rightarrow> Returned () | Some err \<Rightarrow> Thrown HeadersSent)
      \<and> router env up ''openaiAnalyse'' reqBody =
        Some (eventStreamHeaders
              @ [SetHeader ''Connection'' ''keep-alive'',
                 SetHeader ''Access-Control-Allow-Origin'' ''*'',
                 FlushHeaders, Upstream (ChatCompletionsCreate (chatRequest reqBody))]
              @ concat (map (\<lambda>d. if truthy d then [Arrived d, Write (deltaFrame d)]
                                  else [Arrived d]) parts)
              @ (case fin of
                   None \<Rightarrow> [Write doneFrame, End]
                 | Some err \<Rightarrow>
                     [Write (sse (JObj [(''error'', JStr ''Errore durante lo streaming AI.'')])),
                      End]),
              Returned ()))
   \<and> (promptText (getProp reqBody ''messages'') = Inr prompt
        \<and> getProp reqBody ''stream'' \<noteq> JBool False
        \<and> up_generateContentStream up = Inr (items, fin') \<longrightarrow>
      router env up ''vertexChat'' reqBody =
        Some (eventStreamHeaders
              @ [FlushHeaders, Upstream (GenerateContentStream (JObj (vertexRequest prompt)))]
              @ concat (map (\<lambda>d. if truthy d then [Arrived d, Write (deltaFrame d)]
                                  else [Arrived d]) items)
              @ (case fin' of
                   None \<Rightarrow> [Write doneFrame, End]
                 | Some err \<Rightarrow> [Write (sse (JObj [(''error'', JStr (errMessage err))])),
                                Write doneFrame, End]),
              Returned ()))
   \<and> (snd (openThread up reqBody) = Returned threadId
        \<and> up_createAndStream up = Inr (events, fin'') \<longrightarrow>
      router env up ''assistantOpenaiAnalyseStreaming'' reqBody =
        Some (fst (openThread up reqBody)
              @ eventStreamHeaders
              @ [FlushHeaders]
              @ (if \<not> truthy (getProp reqBody ''threadId'')
                 then [Write (sse (JObj [(''threadId'', threadId)]))] else [])
              @ [Upstream (RunsCreateAndStream threadId
                   (JObj [(''assistant_id'', optJson (env ''OPENAI_ASSISTANTID'')),
                          (''stream'', JBool True)]))]
              @ concat (map (\<lambda>d. if truthy d then [Arrived d, Write (deltaFrame d)]
                                  else [Arrived d]) events)
              @ (case fin'' of
                   None \<Rightarrow> [Write doneFrame, End]
                 | Some err \<Rightarrow> [Status (statusOr500 err)]),
              case fin'' of None \<Rightarrow> Returned () | Some err \<Rightarrow> Thrown HeadersSent))"
  using openaiSimulateur_trace[of up parts fin totalTokens env reqBody]
        openaiAnalyse_trace[of up parts fin totalTokens env reqBody]
        vertexChat_trace[of reqBody prompt up items fin' env]
        assistantStreaming_trace[of up reqBody threadId events fin'' env]
  by blast

theorem relay_in_arrival_order_witness:
  \<open>up_chatCompletions exampleUpstream
     = Inr (([JStr ''Bon'', JUndefined, JStr ''jour''], None), JNum 12)
   \<and> promptText (getProp exampleChat ''messages'') = Inr ''USER: Salut''
   \<and> getProp exampleChat ''stream'' \<noteq> JBool False
   \<and> up_generateContentStream exampleUpstream = Inr ([JStr ''Sa'', JStr ''lut''], None)
   \<and> snd (openThread exampleUpstream exampleChat) = Returned (JStr ''thread_1'')
   \<and> up_createAndStream exampleUpstream = Inr ([JStr ''Bien''], None)
   \<and> router exampleEnv exampleUpstream ''openaiSimulateur'' exampleChat =
       Some ([SetHeader ''Content-Type'' ''text/event-stream'',
              SetHeader ''Cache-Control'' ''no-cache'',
              FlushHeaders,
              Upstream (ChatCompletionsCreate (chatRequest exampleChat)),
              Arrived (JStr ''Bon''),
              Write (''data: {"choices":[{"delta":{"content":"Bon"}}]}'' @ [CHR 0x0A, CHR 0x0A]),
              Arrived JUndefined,
              Arrived (JStr ''jour''),
              Write (''data: {"choices":[{"delta":{"content":"jour"}}]}'' @ [CHR 0x0A, CHR 0x0A]),
              Write (''data: {"usage":{"total_tokens":12}}'' @ [CHR 0x0A, CHR 0x0A]),
              Write (''data: [DONE]'' @ [CHR 0x0A, CHR 0x0A]),
              End],
             Returned ())
   \<and> router exampleEnv exampleUpstream ''openaiAnalyse'' exampleChat =
       Some ([SetHeader ''Content-Type'' ''text/event-stream'',
              SetHeader ''Cache-Control'' ''no-cache'',
              SetHeader ''Connection'' ''keep-alive'',
              SetHeader ''Access-Control-Allow-Origin'' ''*'',
              FlushHeaders,
              Upstream (ChatCompletionsCreate (chatRequest exampleChat)),
              Arrived (JStr ''Bon''),
              Write (''data: {"delta":"Bon"}'' @ [CHR 0x0A, CHR 0x0A]),
              Arrived JUndefined,
              Arrived (JStr ''jour''),
              Write (''data: {"delta":"jour"}'' @ [CHR 0x0A, CHR 0x0A]),
              Write (''data: [DONE]'' @ [CHR 0x0A, CHR 0x0A]),
              End],
             Returned ())
   \<and> router exampleEnv exampleUpstream ''vertexChat'' exampleChat =
       Some ([SetHeader ''Content-Type'' ''text/event-stream'',
              SetHeader ''Cache-Control'' ''no-cache'',
              FlushHeaders,
              Upstream (GenerateContentStream (JObj (vertexRequest ''USER: Salut''))),
              Arrived (JStr ''Sa''),
              Write (''data: {"delta":"Sa"}'' @ [CHR 0x0A, CHR 0x0A]),
              Arrived (JStr ''lut''),
              Write (''data: {"delta":"lut"}'' @ [CHR 0x0A, CHR 0x0A]),
              Write (''data: [DONE]'' @ [CHR 0x0A, CHR 0x0A]),
              End],
             Returned ())
   \<and> router exampleEnv exampleUpstream ''assistantOpenaiAnalyseStreaming'' exampleChat =
       Some ([Upstream (ThreadsCreate (JObj [(''messages'', getProp exampleChat ''messages'')])),
              SetHeader ''Content-Type'' ''text/event-stream'',
              SetHeader ''Cache-Control'' ''no-cache'',
              FlushHeaders,
              Write (''data: {"threadId":"thread_1"}'' @ [CHR 0x0A, CHR 0x0A]),
              Upstream (RunsCreateAndStream (JStr ''thread_1'')
                 (JObj [(''assistant_id'', JStr ''asst_1''), (''stream'', JBool True)])),
              Arrived (JStr ''Bien''),
              Write (''data: {"delta":"Bien"}'' @ [CHR 0x0A, CHR 0x0A]),
              Write (''data: [DONE]'' @ [CHR 0x0A, CHR 0x0A]),
              End],
             Returned ())\<close>
proof -
  have h: "up_chatCompletions exampleUpstream
             = Inr (([JStr ''Bon'', JUndefined, JStr ''jour''], None), JNum 12)"
          "up_generateContentStream exampleUpstream = Inr ([JStr ''Sa'', JStr ''lut''], None)"
          "up_createAndStream exampleUpstream = Inr ([JStr ''Bien''], None)"
    by (simp_all add: exampleUpstream_def)
  have p: "promptText (getProp exampleChat ''messages'') = Inr ''USER: Salut''"
    by code_simp
  have s: "getProp exampleChat ''stream'' \<noteq> JBool False"
    by (simp add: exampleChat_def getProp_def objectPrototype_def)
  have t: "\<not> truthy (getProp exampleChat ''threadId'')"
    by (simp add: exampleChat_def getProp_def objectPrototype_def)
  have o: "openThread exampleUpstream exampleChat =
             ([Upstream (ThreadsCreate (JObj [(''messages'', getProp exampleChat ''messages'')]))],
              Returned (JStr ''thread_1''))"
    using t by (simp add: openThread_def await_def exampleUpstream_def)
  have f: \<open>choicesFrame (JStr ''Bon'')
             = ''data: {"choices":[{"delta":{"content":"Bon"}}]}'' @ [CHR 0x0A, CHR 0x0A]\<close>
          \<open>choicesFrame (JStr ''jour'')
             = ''data: {"choices":[{"delta":{"content":"jour"}}]}'' @ [CHR 0x0A, CHR 0x0A]\<close>
          \<open>deltaFrame (JStr ''Bon'') = ''data: {"delta":"Bon"}'' @ [CHR 0x0A, CHR 0x0A]\<close>
          \<open>deltaFrame (JStr ''jour'') = ''data: {"delta":"jour"}'' @ [CHR 0x0A, CHR 0x0A]\<close>
          \<open>deltaFrame (JStr ''Sa'') = ''data: {"delta":"Sa"}'' @ [CHR 0x0A, CHR 0x0A]\<close>
          \<open>deltaFrame (JStr ''lut'') = ''data: {"delta":"lut"}'' @ [CHR 0x0A, CHR 0x0A]\<close>
          \<open>deltaFrame (JStr ''Bien'') = ''data: {"delta":"Bien"}'' @ [CHR 0x0A, CHR 0x0A]\<close>
          \<open>sse (JObj [(''usage'', JObj [(''total_tokens'', JNum 12)])])
             = ''data: {"usage":{"total_tokens":12}}'' @ [CHR 0x0A, CHR 0x0A]\<close>
          \<open>sse (JObj [(''threadId'', JStr ''thread_1'')])
             = ''data: {"threadId":"thread_1"}'' @ [CHR 0x0A, CHR 0x0A]\<close>
          \<open>doneFrame = ''data: [DONE]'' @ [CHR 0x0A, CHR 0x0A]\<close>
    by code_simp+
  note all = relay_in_arrival_order[where up = exampleUpstream and env = exampleEnv
      and reqBody = exampleChat and parts = "[JStr ''Bon'', JUndefined, JStr ''jour'']"
      and fin = None and totalTokens = "JNum 12" and prompt = "''USER: Salut''"
      and items = "[JStr ''Sa'', JStr ''lut'']" and fin' = None
      and threadId = "JStr ''thread_1''" and events = "[JStr ''Bien'']" and fin'' = None]
  from all h p s t o show ?thesis
    by (simp add: f orElse_def eventStreamHeaders_def exampleEnv_def optJson_def)
qed

text \<open>
  Claim C4 as the specification states it, one frame for each upstream delta event,
  fails on an event whose delta is the empty string, as the first chunk of a chat
  completion is: of the three events \<^verbatim>\<open>"Bon"\<close>, \<^verbatim>\<open>""\<close>, \<^verbatim>\<open>"jour"\<close> of this stream, the
  second arrives and no frame is written for it; the client receives two delta frames.
\<close>

theorem empty_delta_counterexample:
  \<open>up_chatCompletions emptyDelta = Inr (([JStr ''Bon'', JStr [], JStr ''jour''], None), JNum 12)
   \<and> router exampleEnv emptyDelta ''openaiSimulateur'' exampleChat =
       Some ([SetHeader ''Content-Type'' ''text/event-stream'',
              SetHeader ''Cache-Control'' ''no-cache'',
              FlushHeaders,
              Upstream (ChatCompletionsCreate (chatRequest exampleChat)),
              Arrived (JStr ''Bon''),
              Write (''data: {"choices":[{"delta":{"content":"Bon"}}]}'' @ [CHR 0x0A, CHR 0x0A]),
              Arrived (JStr []),
              Arrived (JStr ''jour''),
              Write (''data: {"choices":[{"delta":{"content":"jour"}}]}'' @ [CHR 0x0A, CHR 0x0A]),
              Write (''data: {"usage":{"total_tokens":12}}'' @ [CHR 0x0A, CHR 0x0A]),
              Write (''data: [DONE]'' @ [CHR 0x0A, CHR 0x0A]),
              End],
             Returned ())
   \<and> router exampleEnv emptyDelta ''openaiAnalyse'' exampleChat =
       Some ([SetHeader ''Content-Type'' ''text/event-stream'',
              SetHeader ''Cache-Control'' ''no-cache'',
              SetHeader ''Connection'' ''keep-alive'',
              SetHeader ''Access-Control-Allow-Origin'' ''*'',
              FlushHeaders,
              Upstream (ChatCompletionsCreate (chatRequest exampleChat)),
              Arrived (JStr ''Bon''),
              Write (''data: {"delta":"Bon"}'' @ [CHR 0x0A, CHR 0x0A]),
              Arrived (JStr []),
              Arrived (JStr ''jour''),
              Write (''data: {"delta":"jour"}'' @ [CHR 0x0A, CHR 0x0A]),
              Write (''data: [DONE]'' @ [CHR 0x0A, CHR 0x0A]),
              End],
             Returned ())\<close>
  by code_simp

text \<open>
  Claim C1. After an upstream error in mid-stream, the last frame written should be the
  sentinel \<^verbatim>\<open>data: [DONE]\<close>, after exactly one error frame. The catch block of
  \<^verbatim>\<open>vertexChat\<close> does so (\<open>vertexStreaming_terminated\<close>), the catch block of
  \<^verbatim>\<open>openaiAnalyse\<close> does not: when the chat stream breaks after two deltas, the request
  writes the two delta frames and the error frame and ends the response; the error frame
  is the last frame and no sentinel follows it.
\<close>

theorem openaiAnalyse_failure_frames:
  "router exampleEnv brokenStream ''openaiAnalyse'' exampleChat =
     Some (eventStreamHeaders
           @ [SetHeader ''Connection'' ''keep-alive'',
              SetHeader ''Access-Control-Allow-Origin'' ''*'',
              FlushHeaders,
              Upstream (ChatCompletionsCreate (chatRequest exampleChat)),
              Arrived (JStr ''Bon''),
              Write (sse (deltaEnvelope (JStr ''Bon''))),
              Arrived (JStr ''jour''),
              Write (sse (deltaEnvelope (JStr ''jour''))),
              Write (sse (JObj [(''error'', JStr ''Errore durante lo streaming AI.'')])),
              End],
           Returned ())
   \<and> sse (JObj [(''error'', JStr ''Errore durante lo streaming AI.'')]) \<noteq> doneFrame"
proof -
  have "sse (JObj [(''error'', JStr ''Errore durante lo streaming AI.'')]) \<noteq> doneFrame"
    by (simp add: sse_def doneFrame_def objMember_def)
  moreover have "router exampleEnv brokenStream ''openaiAnalyse'' exampleChat =
     Some (eventStreamHeaders
           @ [SetHeader ''Connection'' ''keep-alive'',
              SetHeader ''Access-Control-Allow-Origin'' ''*'',
              FlushHeaders,
              Upstream (ChatCompletionsCreate (chatRequest exampleChat)),
              Arrived (JStr ''Bon''),
              Write (sse (deltaEnvelope (JStr ''Bon''))),
              Arrived (JStr ''jour''),
              Write (sse (deltaEnvelope (JStr ''jour''))),
              Write (sse (JObj [(''error'', JStr ''Errore durante lo streaming AI.'')])),
              End],
           Returned ())"
    by (simp add: router_def dispatch_def handler_openaiAnalyse_def comp_defs brokenStream_def
          exampleUpstream_def writeDelta_def)
  ultimately show ?thesis by blast
qed

text \<open>
  The branches \<^verbatim>\<open>openaiSimulateur\<close> and \<^verbatim>\<open>assistantOpenaiAnalyseStreaming\<close> have no catch
  block of their own: the same broken stream leaves the two delta frames as the last
  frames, and the router's catch block then calls \<^verbatim>\<open>res.status(500).json(...)\<close> on the
  response whose headers are sent, which throws: neither an error frame nor the sentinel
  is written, the response is not ended, and the handler ends with that second error.
\<close>

lemma openaiSimulateur_failure_frames:
  "router exampleEnv brokenStream ''openaiSimulateur'' exampleChat =
     Some (eventStreamHeaders
           @ [FlushHeaders,
              Upstream (ChatCompletionsCreate (chatRequest exampleChat)),
              Arrived (JStr ''Bon''),
              Write (sse (choicesEnvelope (JStr ''Bon''))),
              Arrived (JStr ''jour''),
              Write (sse (choicesEnvelope (JStr ''jour''))),
              Status 500],
           Thrown HeadersSent)"
  by (simp add: router_def dispatch_def handler_openaiSimulateur_def comp_defs brokenStream_def
        exampleUpstream_def writeDelta_def apiRequestError_def statusOr500_def headersSent_def
        eventStreamHeaders_def)

section \<open>The conversation handle\<close>

lemma quote_threadId: "quote ''threadId'' = [CHR 0x22] @ ''threadId'' @ [CHR 0x22]"
  by code_simp

lemma delta_not_threadIdFrame: "\<not> threadIdFrame (sse (deltaEnvelope d))"
  by (cases "stringify d")
     (simp_all add: threadIdFrame_def sse_def deltaEnvelope_def objMember_def quote_threadId
        quote_delta)

lemma done_not_threadIdFrame: "\<not> threadIdFrame doneFrame"
  by (simp add: threadIdFrame_def doneFrame_def quote_threadId)

lemma threadId_announced:
  "stringify t = Some s \<Longrightarrow> threadIdFrame (sse (JObj [(''threadId'', t)]))"
  by (simp add: threadIdFrame_def sse_def objMember_def quote_threadId)

lemma reusesThread_simps:
  "reusesThread (Upstream (RunsCreateAndStream a b))" "reusesThread (Upstream (MessagesCreate a b))"
  "reusesThread FlushHeaders" "reusesThread End" "reusesThread (Write doneFrame)"
  "reusesThread (Status n)" "reusesThread (Json j)" "reusesThread (SetHeader k v)"
  "reusesThread (Write (sse (deltaEnvelope d)))" "reusesThread (Arrived d)"
  by (simp_all add: reusesThread_def delta_not_threadIdFrame done_not_threadIdFrame)

lemma reusesThread_appended: "ef \<in> set (appended t msgs) \<Longrightarrow> reusesThread ef"
  by (auto simp: appended_def reusesThread_simps)

lemma reusesThread_headers: "ef \<in> set eventStreamHeaders \<Longrightarrow> reusesThread ef"
  by (auto simp: eventStreamHeaders_def reusesThread_simps)

lemma existing_thread_reused:
  assumes "truthy (getProp reqBody ''threadId'')"
  shows "\<exists>es out. router env up ''assistantOpenaiAnalyseStreaming'' reqBody = Some (es, out)
           \<and> (\<forall>ef\<in>set es. reusesThread ef)"
proof -
  obtain msgs out
    where o: "openThread up reqBody = (appended (getProp reqBody ''threadId'') msgs, out)"
    using openThread_existing[OF assms, of up] by blast
  show ?thesis
  proof (cases out)
    case (Thrown e)
    with o show ?thesis
      by (auto simp: router_def dispatch_def handler_assistantOpenaiAnalyseStreaming_def comp_defs
               apiRequestError_def reusesThread_simps dest: reusesThread_appended)
  next
    case (Returned tid)
    show ?thesis
    proof (cases "up_createAndStream up")
      case (Inl e)
      with o Returned assms show ?thesis
        by (auto simp: router_def dispatch_def handler_assistantOpenaiAnalyseStreaming_def
                 comp_defs apiRequestError_def reusesThread_simps
                 dest: reusesThread_appended reusesThread_headers)
    next
      case (Inr feed)
      obtain events fin where "feed = (events, fin)" by (cases feed)
      with o Returned assms Inr show ?thesis
        by (cases fin)
           (auto simp: router_def dispatch_def handler_assistantOpenaiAnalyseStreaming_def
                 comp_defs apiRequestError_def reusesThread_simps forAwait_writeDelta
                 finished_def writeDelta_def
                 split: if_splits
                 dest: reusesThread_appended reusesThread_headers)
    qed
  qed
qed

lemma new_thread_first_frame:
  assumes "\<not> truthy (getProp reqBody ''threadId'')"
      and "up_threadsCreate up = Inr threadId"
  shows "\<exists>rest out. router env up ''assistantOpenaiAnalyseStreaming'' reqBody =
           Some ([Upstream (ThreadsCreate (JObj [(''messages'', getProp reqBody ''messages'')]))]
                 @ eventStreamHeaders
                 @ [FlushHeaders, Write (sse (JObj [(''threadId'', threadId)])),
                    Upstream (RunsCreateAndStream threadId
                       (JObj [(''assistant_id'', optJson (env ''OPENAI_ASSISTANTID'')),
                              (''stream'', JBool True)]))]
                 @ rest, out)
           \<and> (\<forall>c. Upstream (ThreadsCreate c) \<notin> set rest)"
proof (cases "up_createAndStream up")
  case (Inl e)
  with assms show ?thesis
    by (simp add: router_def dispatch_def handler_assistantOpenaiAnalyseStreaming_def comp_defs
               openThread_def apiRequestError_def)
next
  case (Inr feed)
  obtain events fin where "feed = (events, fin)" by (cases feed)
  with assms Inr show ?thesis
    by (cases fin)
       (auto simp: router_def dispatch_def handler_assistantOpenaiAnalyseStreaming_def comp_defs
               openThread_def apiRequestError_def forAwait_writeDelta finished_def writeDelta_def
             split: if_splits)
qed

lemma existing_thread_trace:
  assumes "truthy (getProp reqBody ''threadId'')"
      and "iterate (getProp reqBody ''messages'') = Inr msgs"
      and "\<forall>j<length msgs. up_messagesCreate up j = Inr ()"
  shows "\<exists>rest out. router env up ''assistantOpenaiAnalyseStreaming'' reqBody =
           Some (appended (getProp reqBody ''threadId'') msgs
                 @ eventStreamHeaders
                 @ [FlushHeaders,
                    Upstream (RunsCreateAndStream (getProp reqBody ''threadId'')
                       (JObj [(''assistant_id'', optJson (env ''OPENAI_ASSISTANTID'')),
                              (''stream'', JBool True)]))]
                 @ rest, out)"
proof (cases "up_createAndStream up")
  case (Inl e)
  with assms(1) openThread_existing_all[OF assms] show ?thesis
    by (simp add: router_def dispatch_def handler_assistantOpenaiAnalyseStreaming_def comp_defs
               apiRequestError_def)
next
  case (Inr feed)
  obtain events fin where "feed = (events, fin)" by (cases feed)
  with assms(1) openThread_existing_all[OF assms] Inr show ?thesis
    by (cases fin)
       (auto simp: router_def dispatch_def handler_assistantOpenaiAnalyseStreaming_def comp_defs
               apiRequestError_def forAwait_writeDelta finished_def)
qed

text \<open>
  Claim C8. The streaming analysis service, on a request without a \<^verbatim>\<open>threadId\<close>: creates
  an upstream thread and, once the thread is created, writes the frame
  \<^verbatim>\<open>data: {"threadId": id}\<close> as the first thing after the headers, before the run is even
  started, and creates no second thread. On a request with a \<^verbatim>\<open>threadId\<close>: whatever the
  upstream answers, no thread is created and no \<^verbatim>\<open>threadId\<close> frame is written; and when
  the appends succeed the request starts by appending each message of the body, in
  order, to that thread, and then runs the assistant on it.
\<close>

theorem thread_handle:
  "(\<not> truthy (getProp reqBody ''threadId'') \<and> up_threadsCreate up = Inr threadId \<longrightarrow>
      (\<exists>rest out. router env up ''assistantOpenaiAnalyseStreaming'' reqBody =
           Some ([Upstream (ThreadsCreate (JObj [(''messages'', getProp reqBody ''messages'')]))]
                 @ eventStreamHeaders
                 @ [FlushHeaders, Write (sse (JObj [(''threadId'', threadId)])),
                    Upstream (RunsCreateAndStream threadId
                       (JObj [(''assistant_id'', optJson (env ''OPENAI_ASSISTANTID'')),
                              (''stream'', JBool True)]))]
                 @ rest, out)
           \<and> (\<forall>c. Upstream (ThreadsCreate c) \<notin> set rest)))
   \<and> (truthy (getProp reqBody ''threadId'') \<longrightarrow>
      (\<exists>es out. router env up ''assistantOpenaiAnalyseStreaming'' reqBody = Some (es, out)
           \<and> (\<forall>ef\<in>set es. reusesThread ef)))
   \<and> (truthy (getProp reqBody ''threadId'')
        \<and> iterate (getProp reqBody ''messages'') = Inr msgs
        \<and> (\<forall>j<length msgs. up_messagesCreate up j = Inr ()) \<longrightarrow>
      (\<exists>rest out. router env up ''assistantOpenaiAnalyseStreaming'' reqBody =
           Some (appended (getProp reqBody ''threadId'') msgs
                 @ eventStreamHeaders
                 @ [FlushHeaders,
                    Upstream (RunsCreateAndStream (getProp reqBody ''threadId'')
                       (JObj [(''assistant_id'', optJson (env ''OPENAI_ASSISTANTID'')),
                              (''stream'', JBool True)]))]
                 @ rest, out)))"
proof (intro conjI impI)
  assume "\<not> truthy (getProp reqBody ''threadId'') \<and> up_threadsCreate up = Inr threadId"
  then show "\<exists>rest out. router env up ''assistantOpenaiAnalyseStreaming'' reqBody =
           Some ([Upstream (ThreadsCreate (JObj [(''messages'', getProp reqBody ''messages'')]))]
                 @ eventStreamHeaders
                 @ [FlushHeaders, Write (sse (JObj [(''threadId'', threadId)])),
                    Upstream (RunsCreateAndStream threadId
                       (JObj [(''assistant_id'', optJson (env ''OPENAI_ASSISTANTID'')),
                              (''stream'', JBool True)]))]
                 @ rest, out)
           \<and> (\<forall>c. Upstream (ThreadsCreate c) \<notin> set rest)"
    using new_thread_first_frame by blast
next
  assume "truthy (getProp reqBody ''threadId'')"
  then show "\<exists>es out. router env up ''assistantOpenaiAnalyseStreaming'' reqBody = Some (es, out)
           \<and> (\<forall>ef\<in>set es. reusesThread ef)"
    by (rule existing_thread_reused)
next
  assume "truthy (getProp reqBody ''threadId'')
        \<and> iterate (getProp reqBody ''messages'') = Inr msgs
        \<and> (\<forall>j<length msgs. up_messagesCreate up j = Inr ())"
  then show "\<exists>rest out. router env up ''assistantOpenaiAnalyseStreaming'' reqBody =
           Some (appended (getProp reqBody ''threadId'') msgs
                 @ eventStreamHeaders
                 @ [FlushHeaders,
                    Upstream (RunsCreateAndStream (getProp reqBody ''threadId'')
                       (JObj [(''assistant_id'', optJson (env ''OPENAI_ASSISTANTID'')),
                              (''stream'', JBool True)]))]
                 @ rest, out)"
    using existing_thread_trace by blast
qed

theorem thread_handle_witness:
  "\<not> truthy (getProp exampleChat ''threadId'')
   \<and> up_threadsCreate exampleUpstream = Inr (JStr ''thread_1'')
   \<and> (\<exists>rest out. router exampleEnv exampleUpstream ''assistantOpenaiAnalyseStreaming'' exampleChat =
           Some ([Upstream (ThreadsCreate (JObj [(''messages'', getProp exampleChat ''messages'')]))]
                 @ eventStreamHeaders
                 @ [FlushHeaders, Write (sse (JObj [(''threadId'', JStr ''thread_1'')])),
                    Upstream (RunsCreateAndStream (JStr ''thread_1'')
                       (JObj [(''assistant_id'', optJson (exampleEnv ''OPENAI_ASSISTANTID'')),
                              (''stream'', JBool True)]))]
                 @ rest, out))
   \<and> threadIdFrame (sse (JObj [(''threadId'', JStr ''thread_1'')]))
   \<and> truthy (getProp exampleFollowUp ''threadId'')
   \<and> (\<exists>es out. router exampleEnv exampleUpstream ''assistantOpenaiAnalyseStreaming'' exampleFollowUp
                   = Some (es, out)
         \<and> (\<forall>ef\<in>set es. reusesThread ef))
   \<and> iterate (getProp exampleFollowUp ''messages'')
        = Inr [JObj [(''role'', JStr ''user''), (''content'', JStr ''Encore'')]]
   \<and> (\<exists>rest out. router exampleEnv exampleUpstream ''assistantOpenaiAnalyseStreaming'' exampleFollowUp =
           Some (appended (JStr ''thread_7'')
                    [JObj [(''role'', JStr ''user''), (''content'', JStr ''Encore'')]]
                 @ eventStreamHeaders
                 @ [FlushHeaders,
                    Upstream (RunsCreateAndStream (JStr ''thread_7'')
                       (JObj [(''assistant_id'', optJson (exampleEnv ''OPENAI_ASSISTANTID'')),
                              (''stream'', JBool True)]))]
                 @ rest, out))"
proof -
  have a: "\<not> truthy (getProp exampleChat ''threadId'')"
    by (simp add: exampleChat_def getProp_def objectPrototype_def)
  have b: "up_threadsCreate exampleUpstream = Inr (JStr ''thread_1'')"
    by (simp add: exampleUpstream_def)
  have c: "truthy (getProp exampleFollowUp ''threadId'')"
          "getProp exampleFollowUp ''threadId'' = JStr ''thread_7''"
    by (simp_all add: exampleFollowUp_def getProp_def)
  have d: "iterate (getProp exampleFollowUp ''messages'')
            = Inr [JObj [(''role'', JStr ''user''), (''content'', JStr ''Encore'')]]"
    by (simp add: exampleFollowUp_def getProp_def iterate_def)
  have e: "\<forall>j<length [JObj [(''role'', JStr ''user''), (''content'', JStr ''Encore'')]].
             up_messagesCreate exampleUpstream j = Inr ()"
    by (simp add: exampleUpstream_def)
  note new = thread_handle[of exampleChat exampleUpstream "JStr ''thread_1''" exampleEnv "[]",
               THEN conjunct1, rule_format, OF conjI[OF a b]]
  note old = thread_handle[of exampleFollowUp exampleUpstream JNull exampleEnv
               "[JObj [(''role'', JStr ''user''), (''content'', JStr ''Encore'')]]",
               THEN conjunct2, THEN conjunct2, rule_format, OF conjI[OF c(1) conjI[OF d e]]]
  note reuse = thread_handle[of exampleFollowUp exampleUpstream JNull exampleEnv "[]",
               THEN conjunct2, THEN conjunct1, rule_format, OF c(1)]
  have f: "threadIdFrame (sse (JObj [(''threadId'', JStr ''thread_1'')]))"
    by (rule threadId_announced) simp
  from new old reuse a b c d f show ?thesis
    by (simp only: c(2)) blast
qed

section \<open>Voices and languages\<close>

lemma chooseVoice_fallback:
  assumes "normalised ''selectedVoice'' selectedVoice = Inr norm" and "norm \<notin> set allowedVoices"
  shows "chooseVoice selectedVoice = Inr ''fable''"
  using assms by (simp add: chooseVoice_def)

lemma chooseVoice_allowed:
  assumes "normalised ''selectedVoice'' selectedVoice = Inr norm" and "norm \<in> set allowedVoices"
  shows "chooseVoice selectedVoice = Inr norm"
  using assms
  by (cases selectedVoice)
     (auto simp: chooseVoice_def normalised_def callTrim_def orElse_def allowedVoices_def
                 trim_def toLowerCase_def
           split: sum.splits if_splits)

text \<open>
  The allow-list of \<^verbatim>\<open>openai-tts\<close> and \<^verbatim>\<open>streaming-openai-tts\<close> never fails on a voice
  that is a string or absent, and its result is a voice of the list.
\<close>

lemma chooseVoice_never_fails:
  assumes "stringOrFalsy selectedVoice"
  shows "\<exists>v. chooseVoice selectedVoice = Inr v \<and> v \<in> set allowedVoices"
proof -
  obtain norm where n: "normalised ''selectedVoice'' selectedVoice = Inr norm"
    using assms normalised_string by blast
  show ?thesis
  proof (cases "norm \<in> set allowedVoices")
    case True
    then show ?thesis using chooseVoice_allowed[OF n] by simp
  next
    case False
    then show ?thesis using chooseVoice_fallback[OF n] by (simp add: allowedVoices_def)
  qed
qed

text \<open>
  \<^verbatim>\<open>openai-tts\<close> with a voice outside the list: the upstream call carries the voice
  \<^verbatim>\<open>fable\<close>, and on its success the response is the audio with type \<^verbatim>\<open>audio/mpeg\<close>.
\<close>

lemma openai_tts_fallback:
  assumes "truthyS (env ''OPENAI_API_KEY_SIMULATEUR'')"
      and "truthy (getProp reqBody ''text'')"
      and "normalised ''selectedVoice'' (getProp reqBody ''selectedVoice'') = Inr norm"
      and "norm \<notin> set allowedVoices"
      and "up_postBuffer up = Inr audio"
  shows "router env up ''openai-tts'' reqBody =
           Some ([Upstream (AxiosPost ''https://api.openai.com/v1/audio/speech''
                   (JObj [(''model'', JStr ''gpt-4o-mini-tts''),
                          (''input'', getProp reqBody ''text''),
                          (''voice'', JStr ''fable''),
                          (''instructions'', JStr ''Speak in a gentle, slow and friendly way.'')])
                   (JObj [(''headers'',
                           JObj [(''Authorization'',
                                  JStr (''Bearer '' @ tmpl (env ''OPENAI_API_KEY_SIMULATEUR''))),
                                 (''Content-Type'', JStr ''application/json'')]),
                          (''responseType'', JStr ''arraybuffer'')])),
                  SetHeader ''Content-Type'' ''audio/mpeg'', Send audio], Returned ())"
  using assms
  by (simp add: router_def dispatch_def handler_openai_tts_def comp_defs chooseVoice_fallback
        sendAudio_def)

lemma openai_tts_bogus:
  "router exampleEnv exampleUpstream ''openai-tts''
       [(''text'', JStr ''Bonjour''), (''selectedVoice'', JStr ''bogus'')] =
     Some ([Upstream (AxiosPost ''https://api.openai.com/v1/audio/speech''
             (JObj [(''model'', JStr ''gpt-4o-mini-tts''),
                    (''input'', JStr ''Bonjour''),
                    (''voice'', JStr ''fable''),
                    (''instructions'', JStr ''Speak in a gentle, slow and friendly way.'')])
             (JObj [(''headers'',
                     JObj [(''Authorization'', JStr ''Bearer sk-1''),
                           (''Content-Type'', JStr ''application/json'')]),
                    (''responseType'', JStr ''arraybuffer'')])),
            SetHeader ''Content-Type'' ''audio/mpeg'', Send (JBuf ''ID3'')], Returned ())"
  by code_simp

text \<open>
  Claim C6. A voice that is not on the allow-list should be replaced by \<^verbatim>\<open>fable\<close>.
  \<^verbatim>\<open>openai-tts\<close> and \<^verbatim>\<open>streaming-openai-tts\<close> test the list with \<^verbatim>\<open>includes\<close> and do so
  (\<open>chooseVoice_never_fails\<close>, \<open>openai_tts_fallback\<close>). \<^verbatim>\<open>azureTextToSpeech\<close> reads the
  voice from an object literal instead, and a property read also finds what the object
  inherits: for the voice \<^verbatim>\<open>constructor\<close>, which is not on the list, the value read is
  the function \<^verbatim>\<open>Object\<close>, it is truthy, and \<^verbatim>\<open>fable\<close> is not substituted. The upstream
  call is made with that function as its voice, which the JSON body of the call leaves
  out.
\<close>

theorem azureTextToSpeech_inherited_voice:
  \<open>''constructor'' \<notin> set allowedVoices
   \<and> mappedVoice (JStr ''constructor'') = Inr (JFun ''Object'')
   \<and> router exampleEnv exampleUpstream ''azureTextToSpeech''
        [(''text'', JStr ''Bonjour''), (''selectedVoice'', JStr ''constructor'')] =
      Some ([Upstream (AxiosPost
               ''https://tts.example/openai/deployments/tts/audio/speech?api-version=2025-03-01-preview''
               (JObj [(''model'', JStr ''tts-1''),
                      (''input'', JStr ''Bonjour''),
                      (''voice'', JFun ''Object'')])
               (JObj [(''headers'',
                       JObj [(''Content-Type'', JStr ''application/json''),
                             (''api-key'', JStr ''az-2''),
                             (''Accept'', JStr ''audio/mpeg'')]),
                      (''responseType'', JStr ''arraybuffer'')])),
             SetHeader ''Content-Type'' ''audio/mpeg'', Send (JBuf ''ID3'')], Returned ())
   \<and> stringify (JObj [(''model'', JStr ''tts-1''), (''input'', JStr ''Bonjour''),
                       (''voice'', JFun ''Object'')])
       = Some ''{"model":"tts-1","input":"Bonjour"}''\<close>
  by code_simp

text \<open>
  Claim C5, as amended. A request to \<^verbatim>\<open>elevenlabs\<close>, with the API key configured, whose
  language (the \<^verbatim>\<open>selectedLanguage\<close> field trimmed and lowercased, the empty string when
  the field is absent) is neither a key of the service's language-to-voice map nor the
  name of a property that every object inherits, is answered with status 400 and
  \<^verbatim>\<open>{error: "Not supported language"}\<close>, and makes no upstream call.
  \<^verbatim>\<open>azureTTS-Scaleway\<close> has a different policy: for such a language and no override voice
  its voice selection yields the default voice \<^verbatim>\<open>fr-FR-RemyMultilingualNeural\<close>.
\<close>

theorem unmapped_language:
  assumes "normalised ''selectedLanguage'' (getProp reqBody ''selectedLanguage'') = Inr lang"
      and "map_of objectPrototype lang = None"
  shows "(truthyS (env ''ELEVENLAB_API_KEY'') \<and> map_of elevenVoiceMap lang = None \<longrightarrow>
            router env up ''elevenlabs'' reqBody =
              Some ([Status 400, Json (JObj [(''error'', JStr ''Not supported language'')])],
                    Returned ()))
       \<and> (\<not> truthy (getProp reqBody ''selectedVoice'') \<and> map_of azureVoiceMap lang = None \<longrightarrow>
            azureVoice (getProp reqBody ''selectedVoice'') (getProp reqBody ''selectedLanguage'')
              = Inr (JStr ''fr-FR-RemyMultilingualNeural''))"
  using assms
  by (simp add: router_def dispatch_def handler_elevenlabs_def comp_defs getProp_def
        azureVoice_def orElse_def)

theorem unmapped_language_witness:
  "normalised ''selectedLanguage''
       (getProp [(''text'', JStr ''Hola''), (''selectedLanguage'', JStr '' Italien '')]
          ''selectedLanguage'') = Inr ''italien''
   \<and> map_of objectPrototype ''italien'' = None
   \<and> truthyS (exampleEnv ''ELEVENLAB_API_KEY'')
   \<and> map_of elevenVoiceMap ''italien'' = None
   \<and> router exampleEnv exampleUpstream ''elevenlabs''
        [(''text'', JStr ''Hola''), (''selectedLanguage'', JStr '' Italien '')] =
       Some ([Status 400, Json (JObj [(''error'', JStr ''Not supported language'')])], Returned ())"
proof -
  have a: "normalised ''selectedLanguage''
       (getProp [(''text'', JStr ''Hola''), (''selectedLanguage'', JStr '' Italien '')]
          ''selectedLanguage'') = Inr ''italien''"
    by code_simp
  have b: "map_of objectPrototype ''italien'' = None"
    by (simp add: objectPrototype_def)
  have c: "truthyS (exampleEnv ''ELEVENLAB_API_KEY'')"
    by (simp add: exampleEnv_def truthyS_def)
  have d: "map_of elevenVoiceMap ''italien'' = None"
    by (simp add: elevenVoiceMap_def)
  from unmapped_language[OF a b, of exampleEnv exampleUpstream, THEN conjunct1, rule_format,
         OF conjI[OF c d]] a b c d
  show ?thesis by blast
qed

text \<open>
  Claim C5 as the specification states it fails on \<^verbatim>\<open>azureTTS-Scaleway\<close>: for the
  language \<^verbatim>\<open>italien\<close>, which its map does not hold, and no override voice, the voice
  selection substitutes the default voice, and the response is not the 400 of an
  unsupported language.
\<close>

theorem default_voice_counterexample:
  "map_of azureVoiceMap ''italien'' = None
   \<and> azureVoice JUndefined (JStr ''italien'') = Inr (JStr ''fr-FR-RemyMultilingualNeural'')
   \<and> router exampleEnv exampleUpstream ''azureTTS-Scaleway''
        [(''text'', JStr ''Hola''), (''selectedLanguage'', JStr ''italien'')]
      \<noteq> Some ([Status 400, Json (JObj [(''error'', JStr ''Not supported language'')])],
               Returned ())"
  by code_simp

section \<open>The branch that reads an undeclared name\<close>

lemma readIdentifier_style:
  "readIdentifier ''style'' = Inl (ReferenceError ''style is not defined'')"
  by (simp add: readIdentifier_def identifiersInScope_def)

lemma handler_azureTTS_Scaleway_throws:
  assumes "truthy (getProp reqBody ''text'')"
      and "truthyS (env ''AZURE_TTS_KEY_AI_SERVICES'')"
      and "truthyS (env ''AZURE_REGION_AI_SERVICES'')"
  shows "\<exists>e. handler_azureTTS_Scaleway env up reqBody = ([], Thrown e)
            \<and> errMessage e = scalewayMessage reqBody \<and> errResponse e = None"
proof (cases "azureVoice (getProp reqBody ''selectedVoice'') (getProp reqBody ''selectedLanguage'')")
  case (Inl e)
  have "errResponse e = None"
    using Inl by (rule azureVoice_Inl)
  with Inl assms show ?thesis
    by (simp add: handler_azureTTS_Scaleway_def scalewayMessage_def comp_defs)
next
  case (Inr v)
  with assms show ?thesis
    by (simp add: handler_azureTTS_Scaleway_def scalewayMessage_def comp_defs readIdentifier_style)
qed

lemma scalewayMessage_strings:
  assumes "stringOrFalsy (getProp reqBody ''selectedVoice'')"
      and "stringOrFalsy (getProp reqBody ''selectedLanguage'')"
  shows "scalewayMessage reqBody = ''style is not defined''"
  using azureVoice_total[OF assms] by (auto simp: scalewayMessage_def)

text \<open>
  Claim C9. A request to \<^verbatim>\<open>azureTTS-Scaleway\<close> with a non-empty text and both
  credentials configured throws before the SSML document is built and before any
  upstream call: the only thing the request does is the router's catch block, status
  500 with the body \<^verbatim>\<open>{error: "API request error", ...}\<close>. When the voice and language
  fields are strings or absent, the error is the \<^verbatim>\<open>ReferenceError\<close> of the undeclared
  name \<^verbatim>\<open>style\<close>; a field of another type fails even earlier, on \<^verbatim>\<open>trim\<close>.
\<close>

theorem azureTTS_Scaleway_always_throws:
  assumes "truthy (getProp reqBody ''text'')"
      and "truthyS (env ''AZURE_TTS_KEY_AI_SERVICES'')"
      and "truthyS (env ''AZURE_REGION_AI_SERVICES'')"
  shows "router env up ''azureTTS-Scaleway'' reqBody =
           Some ([Status 500,
                  Json (JObj [(''error'', JStr ''API request error''),
                              (''service'', JStr ''azureTTS-Scaleway''),
                              (''status'', JNum 500),
                              (''message'', JStr (scalewayMessage reqBody)),
                              (''requestId'', JStr []),
                              (''details'', JUndefined)])],
                 Returned ())
         \<and> (stringOrFalsy (getProp reqBody ''selectedVoice'')
              \<and> stringOrFalsy (getProp reqBody ''selectedLanguage'')
             \<longrightarrow> scalewayMessage reqBody = ''style is not defined'')"
proof -
  obtain e where e: "handler_azureTTS_Scaleway env up reqBody = ([], Thrown e)"
      "errMessage e = scalewayMessage reqBody" "errResponse e = None"
    using handler_azureTTS_Scaleway_throws[OF assms] by blast
  have "router env up ''azureTTS-Scaleway'' reqBody =
           Some ([Status 500,
                  Json (JObj [(''error'', JStr ''API request error''),
                              (''service'', JStr ''azureTTS-Scaleway''),
                              (''status'', JNum 500),
                              (''message'', JStr (scalewayMessage reqBody)),
                              (''requestId'', JStr []),
                              (''details'', JUndefined)])],
                 Returned ())"
    using e
    by (simp add: router_def dispatch_def comp_defs apiRequestError_def statusOr500_def
          requestIdOf_def responseHeaders_def responseData_def getProp_def objectPrototype_def
          orElse_def headersSent_def)
  then show ?thesis using scalewayMessage_strings by blast
qed

theorem azureTTS_Scaleway_always_throws_witness:
  "truthy (getProp [(''text'', JStr ''Hola''), (''selectedLanguage'', JStr ''espagnol'')] ''text'')
   \<and> truthyS (exampleEnv ''AZURE_TTS_KEY_AI_SERVICES'')
   \<and> truthyS (exampleEnv ''AZURE_REGION_AI_SERVICES'')
   \<and> stringOrFalsy (getProp [(''text'', JStr ''Hola''), (''selectedLanguage'', JStr ''espagnol'')]
                       ''selectedVoice'')
   \<and> stringOrFalsy (getProp [(''text'', JStr ''Hola''), (''selectedLanguage'', JStr ''espagnol'')]
                       ''selectedLanguage'')
   \<and> router exampleEnv exampleUpstream ''azureTTS-Scaleway''
        [(''text'', JStr ''Hola''), (''selectedLanguage'', JStr ''espagnol'')] =
       Some ([Status 500,
              Json (JObj [(''error'', JStr ''API request error''),
                          (''service'', JStr ''azureTTS-Scaleway''),
                          (''status'', JNum 500),
                          (''message'', JStr ''style is not defined''),
                          (''requestId'', JStr []),
                          (''details'', JUndefined)])],
             Returned ())"
proof -
  have a: "truthy (getProp [(''text'', JStr ''Hola''), (''selectedLanguage'', JStr ''espagnol'')]
                     ''text'')"
    by (simp add: getProp_def)
  have b: "truthyS (exampleEnv ''AZURE_TTS_KEY_AI_SERVICES'')"
          "truthyS (exampleEnv ''AZURE_REGION_AI_SERVICES'')"
    by (simp_all add: exampleEnv_def truthyS_def)
  have c: "stringOrFalsy (getProp [(''text'', JStr ''Hola''), (''selectedLanguage'', JStr ''espagnol'')]
                       ''selectedVoice'')"
          "stringOrFalsy (getProp [(''text'', JStr ''Hola''), (''selectedLanguage'', JStr ''espagnol'')]
                       ''selectedLanguage'')"
    by (simp_all add: getProp_def objectPrototype_def stringOrFalsy_def)
  from azureTTS_Scaleway_always_throws[OF a b, of exampleUpstream] a b c
  show ?thesis by simp
qed

section \<open>Properties of the SSML builder\<close>

lemma replaceAll_append: "replaceAll c r (xs @ ys) = replaceAll c r xs @ replaceAll c r ys"
  by (simp add: replaceAll_def)

lemma replaceAll_Nil: "replaceAll c r [] = []"
  by (simp add: replaceAll_def)

lemma replaceAll_Cons: "replaceAll c r (x # xs) = (if x = c then r else [x]) @ replaceAll c r xs"
  by (simp add: replaceAll_def)

lemma escapeXml_append: "escapeXml (xs @ ys) = escapeXml xs @ escapeXml ys"
  by (simp add: escapeXml_def replaceAll_append)

text \<open>
  One character through the five replacements: the ampersand of an entity that a later
  replacement writes is not seen by the first replacement, which has already run.
\<close>

lemma escapeXml_single: "escapeXml [c] = entityOf c"
  by (simp add: escapeXml_def entityOf_def replaceAll_Cons replaceAll_Nil)

lemma escapeXml_entities: "escapeXml s = concat (map entityOf s)"
proof (induction s)
  case Nil
  show ?case by (simp add: escapeXml_def replaceAll_Nil)
next
  case (Cons c s)
  have "escapeXml (c # s) = escapeXml ([c] @ s)" by simp
  also have "\<dots> = entityOf c @ escapeXml s"
    by (simp only: escapeXml_append escapeXml_single)
  finally show ?case using Cons.IH by simp
qed

lemma trim_framed:
  assumes "jsWhitespace w" "\<not> jsWhitespace a" "\<not> jsWhitespace b"
  shows "trim (w # a # xs @ [b]) = a # xs @ [b]"
  using assms by (simp add: trim_def)

text \<open>
  The final \<^verbatim>\<open>trim\<close> removes the line break that opens the template and nothing else:
  the document starts with \<^verbatim>\<open><\<close> and ends with \<^verbatim>\<open>>\<close>.
\<close>

lemma buildSSML_parts:
  "buildSSML p =
     ssmlOpening p @ expressOpen p @ nl @ ''      '' @ openProsody p @ nl @ ''        ''
       @ escapeXml (ssml_text p) @ ssmlClosing p"
proof -
  define xs where
    "xs = butlast (tl (ssmlOpening p @ expressOpen p @ nl @ ''      '' @ openProsody p @ nl
                       @ ''        '' @ escapeXml (ssml_text p) @ ssmlClosing p))"
  have whole:
    "ssmlOpening p @ expressOpen p @ nl @ ''      '' @ openProsody p @ nl @ ''        ''
       @ escapeXml (ssml_text p) @ ssmlClosing p = CHR ''<'' # xs @ [CHR ''>'']"
    unfolding xs_def ssmlOpening_def ssmlClosing_def
    by (simp add: butlast_append)
  have "buildSSML p = trim (CHR 0x0A # CHR ''<'' # xs @ [CHR ''>''])"
    unfolding buildSSML_def whole[symmetric] ssmlOpening_def ssmlClosing_def nl_def by simp
  also have "\<dots> = CHR ''<'' # xs @ [CHR ''>'']"
    by (rule trim_framed) (simp_all add: jsWhitespace_def)
  finally show ?thesis using whole by simp
qed

lemma text_embedded_escaped:
  "\<exists>pre post. \<forall>t. buildSSML (p\<lparr>ssml_text := t\<rparr>) = pre @ escapeXml t @ post"
proof -
  have "buildSSML (p\<lparr>ssml_text := t\<rparr>) =
          (ssmlOpening p @ expressOpen p @ nl @ ''      '' @ openProsody p @ nl @ ''        '')
          @ escapeXml t @ ssmlClosing p" for t
    by (simp add: buildSSML_parts ssmlOpening_def ssmlClosing_def expressOpen_def openProsody_def
          closeProsody_def expressClose_def prosodyAttrs_def)
  then show ?thesis by blast
qed

text \<open>
  Claim C2. \<^verbatim>\<open>escapeXml\<close> replaces each of the five reserved characters of its input by
  the character's named entity and leaves every other character as it is; the result is
  the concatenation of these per-character results, so an ampersand that the escaping
  itself writes is never escaped again. \<^verbatim>\<open>buildSSML\<close> applies it on every call: with the
  other parameters fixed, the document is one fixed text around the escaped text.
\<close>

theorem escapeXml_single_pass:
  "escapeXml s = concat (map entityOf s)
   \<and> (\<exists>pre post. \<forall>t. buildSSML (p\<lparr>ssml_text := t\<rparr>) = pre @ escapeXml t @ post)"
  using escapeXml_entities text_embedded_escaped by blast

theorem escapeXml_single_pass_witness:
  \<open>escapeXml (''<a href="x">Tom & Jerry'' @ [CHR 0x27] @ ''s</a>'')
     = ''&lt;a href=&quot;x&quot;&gt;Tom &amp; Jerry&apos;s&lt;/a&gt;''
   \<and> escapeXml ''&lt;'' = ''&amp;lt;''\<close>
  using escapeXml_single_pass[of \<open>''<a href="x">Tom & Jerry'' @ [CHR 0x27] @ ''s</a>''\<close>]
        escapeXml_single_pass[of "''&lt;''"]
  by (simp add: entityOf_def)

lemma sublist_expressOpen: "sublist xs (expressOpen p) \<Longrightarrow> sublist xs (buildSSML p)"
proof -
  assume a: "sublist xs (expressOpen p)"
  have "sublist (expressOpen p) (buildSSML p)"
    unfolding buildSSML_parts by (rule sublist_appendI)
  with a show ?thesis by (rule sublist_order.order.trans)
qed

lemma sublist_openProsody: "sublist xs (openProsody p) \<Longrightarrow> sublist xs (buildSSML p)"
proof -
  assume a: "sublist xs (openProsody p)"
  have "buildSSML p = (ssmlOpening p @ expressOpen p @ nl @ ''      '') @ openProsody p
          @ (nl @ ''        '' @ escapeXml (ssml_text p) @ ssmlClosing p)"
    by (simp add: buildSSML_parts)
  then have "sublist (openProsody p) (buildSSML p)"
    by (metis sublist_appendI)
  with a show ?thesis by (rule sublist_order.order.trans)
qed

lemma text_escaped_in_place:
  "sublist (nl @ ''        '' @ escapeXml (ssml_text p) @ nl) (buildSSML p)"
proof -
  have "buildSSML p = (ssmlOpening p @ expressOpen p @ nl @ ''      '' @ openProsody p)
          @ (nl @ ''        '' @ escapeXml (ssml_text p) @ nl)
          @ (''      '' @ closeProsody p @ nl @ ''    '' @ expressClose p @ nl
             @ ''  </voice>'' @ nl @ ''</speak>'')"
    by (simp add: buildSSML_parts ssmlClosing_def)
  then show ?thesis by (metis sublist_appendI)
qed

lemma voice_verbatim:
  \<open>prefix (''<speak version="1.0" xmlns:mstts="https://www.w3.org/2001/mstts" xml:lang="''
            @ substring (ssml_voice p) 0 5 @ ''">'' @ nl
            @ ''  <voice name="'' @ ssml_voice p @ ''">'') (buildSSML p)\<close>
  unfolding buildSSML_parts ssmlOpening_def prefix_def by simp

lemma style_verbatim:
  assumes "ssml_style p = Some s" "s \<noteq> []"
  shows \<open>sublist (''<mstts:express-as style="'' @ s @ ''"'') (buildSSML p)\<close>
proof (rule sublist_expressOpen)
  have \<open>prefix (''<mstts:express-as style="'' @ s @ ''"'') (expressOpen p)\<close>
    using assms by (simp add: expressOpen_def truthyS_def tmpl_def prefix_def)
  then show \<open>sublist (''<mstts:express-as style="'' @ s @ ''"'') (expressOpen p)\<close>
    by (rule prefix_imp_sublist)
qed

lemma styleDegree_verbatim:
  assumes "ssml_style p = Some s" "s \<noteq> []" "ssml_styleDegree p = Some g" "g \<noteq> []"
  shows \<open>sublist ('' styledegree="'' @ g @ ''">'') (buildSSML p)\<close>
proof (rule sublist_expressOpen)
  have \<open>suffix ('' styledegree="'' @ g @ ''">'') (expressOpen p)\<close>
    using assms by (simp add: expressOpen_def truthyS_def tmpl_def suffix_def)
  then show \<open>sublist ('' styledegree="'' @ g @ ''">'') (expressOpen p)\<close>
    by (rule suffix_imp_sublist)
qed

lemma rate_verbatim:
  assumes "ssml_rate p = Some r" "r \<noteq> []"
  shows \<open>sublist (''<prosody rate="'' @ r @ ''"'') (buildSSML p)\<close>
proof (rule sublist_openProsody)
  have \<open>prefix (''<prosody rate="'' @ r @ ''"'') (openProsody p)\<close>
    using assms
    by (cases "truthyS (ssml_pitch p)"; cases "truthyS (ssml_volume p)")
       (simp_all add: openProsody_def prosodyAttrs_def filterBoolean_def truthyS_def tmpl_def
          prefix_def split: option.splits)
  then show \<open>sublist (''<prosody rate="'' @ r @ ''"'') (openProsody p)\<close>
    by (rule prefix_imp_sublist)
qed

lemma pitch_verbatim:
  assumes "ssml_pitch p = Some v" "v \<noteq> []"
  shows \<open>sublist (''pitch="'' @ v @ ''"'') (buildSSML p)\<close>
proof (rule sublist_openProsody)
  have \<open>openProsody p =
          (''<prosody ''
           @ (if truthyS (ssml_rate p) then ''rate="'' @ tmpl (ssml_rate p) @ ''" '' else []))
          @ (''pitch="'' @ v @ ''"'')
          @ ((if truthyS (ssml_volume p) then '' volume="'' @ tmpl (ssml_volume p) @ ''"'' else [])
             @ ''>'')\<close>
    using assms
    by (cases "truthyS (ssml_rate p)"; cases "truthyS (ssml_volume p)")
       (simp_all add: openProsody_def prosodyAttrs_def filterBoolean_def truthyS_def tmpl_def
          split: option.splits)
  then show \<open>sublist (''pitch="'' @ v @ ''"'') (openProsody p)\<close>
    by (metis sublist_appendI)
qed

lemma volume_verbatim:
  assumes "ssml_volume p = Some v" "v \<noteq> []"
  shows \<open>sublist (''volume="'' @ v @ ''">'') (buildSSML p)\<close>
proof (rule sublist_openProsody)
  have \<open>suffix (''volume="'' @ v @ ''">'') (openProsody p)\<close>
    using assms
    by (cases "truthyS (ssml_pitch p)"; cases "truthyS (ssml_rate p)")
       (simp_all add: openProsody_def prosodyAttrs_def filterBoolean_def truthyS_def tmpl_def
          suffix_def split: option.splits)
  then show \<open>sublist (''volume="'' @ v @ ''">'') (openProsody p)\<close>
    by (rule suffix_imp_sublist)
qed

text \<open>
  Claim C10. In the document that \<^verbatim>\<open>buildSSML\<close> returns, the voice identifier stands as
  it was given in the \<^verbatim>\<open>name\<close> attribute of the \<^verbatim>\<open>voice\<close> element (and its first five
  characters in \<^verbatim>\<open>xml:lang\<close>), and each of the style name, the style degree, the rate,
  the pitch and the volume, when it is given and not empty, stands as it was given in
  its attribute; none of them passes through \<^verbatim>\<open>escapeXml\<close>. Only the text does: it stands
  escaped on its own line.
\<close>

theorem parameters_verbatim:
  \<open>prefix (''<speak version="1.0" xmlns:mstts="https://www.w3.org/2001/mstts" xml:lang="''
            @ substring (ssml_voice p) 0 5 @ ''">'' @ nl
            @ ''  <voice name="'' @ ssml_voice p @ ''">'') (buildSSML p)
   \<and> (ssml_style p = Some s \<and> s \<noteq> [] \<longrightarrow>
        sublist (''<mstts:express-as style="'' @ s @ ''"'') (buildSSML p))
   \<and> (ssml_style p = Some s \<and> s \<noteq> [] \<and> ssml_styleDegree p = Some g \<and> g \<noteq> [] \<longrightarrow>
        sublist ('' styledegree="'' @ g @ ''">'') (buildSSML p))
   \<and> (ssml_rate p = Some r \<and> r \<noteq> [] \<longrightarrow>
        sublist (''<prosody rate="'' @ r @ ''"'') (buildSSML p))
   \<and> (ssml_pitch p = Some pt \<and> pt \<noteq> [] \<longrightarrow>
        sublist (''pitch="'' @ pt @ ''"'') (buildSSML p))
   \<and> (ssml_volume p = Some vol \<and> vol \<noteq> [] \<longrightarrow>
        sublist (''volume="'' @ vol @ ''">'') (buildSSML p))
   \<and> sublist (nl @ ''        '' @ escapeXml (ssml_text p) @ nl) (buildSSML p)\<close>
  using voice_verbatim style_verbatim styleDegree_verbatim rate_verbatim pitch_verbatim
        volume_verbatim text_escaped_in_place
  by blast

theorem parameters_verbatim_witness:
  \<open>ssml_voice exampleSpeech = ''x"><break/>''
   \<and> ssml_style exampleSpeech = Some ''sad" role="x''
   \<and> ssml_styleDegree exampleSpeech = Some ''2''
   \<and> ssml_rate exampleSpeech = Some ''+12%''
   \<and> ssml_pitch exampleSpeech = Some ''<st>''
   \<and> ssml_volume exampleSpeech = Some ''loud''
   \<and> ssml_text exampleSpeech = ''Tom & Jerry''
   \<and> prefix (''<speak version="1.0" xmlns:mstts="https://www.w3.org/2001/mstts" xml:lang="x"><b">''
              @ nl @ ''  <voice name="x"><break/>">'') (buildSSML exampleSpeech)
   \<and> sublist ''<mstts:express-as style="sad" role="x"'' (buildSSML exampleSpeech)
   \<and> sublist '' styledegree="2">'' (buildSSML exampleSpeech)
   \<and> sublist ''<prosody rate="+12%"'' (buildSSML exampleSpeech)
   \<and> sublist ''pitch="<st>"'' (buildSSML exampleSpeech)
   \<and> sublist ''volume="loud">'' (buildSSML exampleSpeech)
   \<and> sublist (nl @ ''        Tom &amp; Jerry'' @ nl) (buildSSML exampleSpeech)\<close>
proof -
  have f: \<open>ssml_voice exampleSpeech = ''x"><break/>''\<close>
          \<open>ssml_style exampleSpeech = Some ''sad" role="x''\<close>
          \<open>ssml_styleDegree exampleSpeech = Some ''2''\<close>
          \<open>ssml_rate exampleSpeech = Some ''+12%''\<close>
          \<open>ssml_pitch exampleSpeech = Some ''<st>''\<close>
          \<open>ssml_volume exampleSpeech = Some ''loud''\<close>
          \<open>ssml_text exampleSpeech = ''Tom & Jerry''\<close>
    by (simp_all add: exampleSpeech_def)
  have e: "escapeXml ''Tom & Jerry'' = ''Tom &amp; Jerry''"
    by (simp add: escapeXml_entities entityOf_def)
  show ?thesis
    using parameters_verbatim[of exampleSpeech \<open>''sad" role="x''\<close> "''2''" "''+12%''" "''<st>''"
            "''loud''"]
    by (simp add: f e substring_def)
qed

end
